theory Spec2Isabelle
  imports Main "HOL-Library.Multiset"
begin

section \<open>Data model\<close>

text \<open>
  The three mongoose schemas of \<^verbatim>\<open>index.js\<close>. A vendor and an invoice carry the \<^verbatim>\<open>_id\<close>
  that the driver gives them (an ObjectId, here its string form), which the routes write
  into the ledger; the \<^verbatim>\<open>_id\<close> of a ledger entry is read nowhere and left out. Dates are
  milliseconds since the epoch, amounts are whole numbers, and a field the schema leaves
  optional is an \<open>option\<close>. Collections are lists in insertion order.

  The model handles one request to its end before the next: what two handlers do when
  their awaits interleave is outside it.
\<close>

record vendor =
  v_oid :: string
  v_username :: string
  v_password :: string
  v_approved :: bool
  v_customers :: "string list"
  v_stripeCustomerId :: string
  v_subscriptionStatus :: string
  v_trialEndsAt :: "nat option"
  v_stripeConnectAccountId :: "string option"

record invoice =
  inv_oid :: string
  inv_id :: string
  inv_customerId :: string
  inv_amount :: int
  inv_description :: "string option"
  inv_invoiceUrl :: "string option"
  inv_status :: string
  inv_createdAt :: nat

record activity_log =
  log_eventType :: string
  log_description :: string
  log_timestamp :: nat
  log_relatedId :: "string option"

text \<open>
  What leaves the process besides the HTTP response: lines on the console and calls to
  the payment processor, in the order they happen.
\<close>

datatype stripe_call =
    RefundsCreate string
  | CustomersCreate string
  | CustomersRetrieve string
  | CustomersUpdate string string
  | SetupIntentsCreate string
  | InvoicesList string
  | PaymentMethodsList string
  | PaymentMethodsAttach string string
  | PaymentIntentsCreate string int string
  | InvoiceItemsCreate string int
  | InvoicesCreate string string
  | InvoicesFinalize string
  | SubscriptionsCreate string
  | SubscriptionsList string
  | SubscriptionsCancel string
  | PayoutsCreate int string
  | PayoutsList string
  | AccountsCreate string
  | AccountLinksCreate string

datatype effect = ConsoleLog string | ConsoleError string | Stripe stripe_call

record state =
  vendors :: "vendor list"
  invoices :: "invoice list"
  activityLogs :: "activity_log list"
  outbound :: "effect list"

text \<open>The fields of \<^verbatim>\<open>event.data.object\<close> that the webhook reads.\<close>

record event_object =
  obj_id :: string
  obj_charge :: string
  obj_customer :: string
  obj_status :: string
  obj_amount :: int
  obj_amount_refunded :: int
  obj_currency :: string
  obj_failure_code :: "string option"

record event =
  ev_id :: string
  ev_type :: string
  ev_object :: event_object

text \<open>The payload of the token cookie, as \<^verbatim>\<open>jwt.verify\<close> hands it to the route.\<close>

record user =
  u_username :: string
  u_role :: string

text \<open>The fields of the processor's customers and invoices that the routes read.\<close>

record stripe_customer =
  cus_id :: string
  cus_name :: "string option"
  cus_email :: "string option"
  cus_phone :: "string option"
  cus_default_payment_method :: "string option"

record stripe_invoice =
  si_id :: string
  si_hosted_invoice_url :: "string option"
  si_status :: string
  si_amount_due :: int
  si_currency :: string
  si_created :: int

section \<open>HTTP responses\<close>

text \<open>
  JSON values; \<open>JQuot n d\<close> is the number JavaScript computes for \<open>n / d\<close>. A date is
  given by its milliseconds.
\<close>

datatype json =
    JNull
  | JBool bool
  | JNum int
  | JQuot int int
  | JStr string
  | JArr "json list"
  | JObj "(string \<times> json) list"

datatype body = Send string | Json json

text \<open>
  \<^verbatim>\<open>res.cookie('token', ...)\<close> and \<^verbatim>\<open>res.clearCookie('token', ...)\<close>; the flag is the
  cookie's \<^verbatim>\<open>secure\<close> attribute.
\<close>

datatype cookie_op = SetToken string bool | ClearToken bool

record response =
  status :: nat
  body :: body
  cookie :: "cookie_op option"

definition respond :: "nat \<Rightarrow> body \<Rightarrow> response" where
  "respond c b = \<lparr>status = c, body = b, cookie = None\<rparr>"

text \<open>
  The collaborators the code calls through, as parameters of the model: the processor's
  library, bcrypt, jsonwebtoken, the regular expressions of the store's queries, the
  clock, the ObjectId generator and the availability of the store. A remote call that
  returns a value answers \<open>Inl message\<close> when it throws, one that returns nothing of
  use answers \<open>Some message\<close> when it throws. \<open>store_error n\<close> is the message with which
  the store call awaited at line \<open>n\<close> of \<^verbatim>\<open>index.js\<close> throws, if it does, and
  \<open>new_oid n\<close> the \<^verbatim>\<open>_id\<close> of the document built at line \<open>n\<close>. \<open>fmt_num\<close> and
  \<open>fmt_div100\<close> are the texts JavaScript prints for a number and for a number divided by
  100, \<open>template_text\<close> the text a template literal makes of a value that is not a
  string. \<open>bcrypt_compare\<close> is handed the password as the request carries it, a string
  or not, and may throw; \<open>cast_filter\<close> is what the store makes of a query on a string
  field with a value that is not a string: an error, or a test on the field. The answers
  are those of one request.
\<close>

record env =
  STRIPE_WEBHOOK_SECRET :: "string option"
  constructEvent :: "string \<Rightarrow> string option \<Rightarrow> string option \<Rightarrow> string + event"
  refunds_create :: "string \<Rightarrow> string option"
  store_error :: "nat \<Rightarrow> string option"
  now :: nat
  new_oid :: "nat \<Rightarrow> string"
  fmt_num :: "int \<Rightarrow> string"
  fmt_div100 :: "int \<Rightarrow> string"
  toLocaleDateString :: "int \<Rightarrow> string"
  regex_i :: "string \<Rightarrow> string \<Rightarrow> bool"
  NODE_ENV :: "string option"
  bcrypt_hash :: "string \<Rightarrow> string"
  bcrypt_compare :: "json \<Rightarrow> string \<Rightarrow> string + bool"
  cast_filter :: "json \<Rightarrow> string + (string \<Rightarrow> bool)"
  template_text :: "json \<Rightarrow> string"
  jwt_sign :: "string \<Rightarrow> string \<Rightarrow> string"
  jwt_verify :: "string \<Rightarrow> string + user"
  customers_create :: "string option \<Rightarrow> string option \<Rightarrow> string + string"
  customers_retrieve :: "string \<Rightarrow> string + stripe_customer"
  customers_update :: "string \<Rightarrow> string \<Rightarrow> string option"
  setupIntents_create :: "string \<Rightarrow> string + string"
  invoices_list :: "string \<Rightarrow> string + stripe_invoice list"
  paymentMethods_list :: "string \<Rightarrow> string + string list"
  paymentMethods_attach :: "string \<Rightarrow> string \<Rightarrow> string option"
  paymentIntents_create :: "string \<Rightarrow> int \<Rightarrow> string \<Rightarrow> string + string"
  invoiceItems_create :: "string \<Rightarrow> int \<Rightarrow> string option \<Rightarrow> string option"
  invoices_create :: "string \<Rightarrow> string \<Rightarrow> string + stripe_invoice"
  invoices_finalize :: "string \<Rightarrow> string + stripe_invoice"
  subscriptions_create :: "string \<Rightarrow> string + string \<times> string"
  subscriptions_list :: "string \<Rightarrow> string + string list"
  subscriptions_cancel :: "string \<Rightarrow> string + string"
  payouts_create :: "int \<Rightarrow> string \<Rightarrow> string + string"
  payouts_list :: "string \<Rightarrow> string + json"
  accounts_create :: "string \<Rightarrow> string + string"
  accountLinks_create :: "string \<Rightarrow> string + string"

section \<open>Control flow and store primitives\<close>

text \<open>
  A block of an async handler either runs to its end or throws; either way the effects
  it had so far stay. \<open>Thrown m s\<close> is an exception with message \<open>m\<close> raised in state
  \<open>s\<close>.
\<close>

datatype flow = Returned state | Thrown string state

definition console_log :: "string \<Rightarrow> state \<Rightarrow> state" where
  "console_log m s = s\<lparr>outbound := outbound s @ [ConsoleLog m]\<rparr>"

definition console_error :: "string \<Rightarrow> state \<Rightarrow> state" where
  "console_error m s = s\<lparr>outbound := outbound s @ [ConsoleError m]\<rparr>"

definition stripe_called :: "stripe_call \<Rightarrow> state \<Rightarrow> state" where
  "stripe_called c s = s\<lparr>outbound := outbound s @ [Stripe c]\<rparr>"

text \<open>\<^verbatim>\<open>ActivityLog.create({eventType, description, relatedId})\<close>, awaited at line \<open>site\<close>.\<close>

definition ActivityLog_create ::
  "env \<Rightarrow> nat \<Rightarrow> string \<Rightarrow> string \<Rightarrow> string \<Rightarrow> state \<Rightarrow> flow" where
  "ActivityLog_create e site ty descr rel s =
     (case store_error e site of
        Some m \<Rightarrow> Thrown m s
      | None \<Rightarrow>
          Returned (s\<lparr>activityLogs := activityLogs s @
            [\<lparr>log_eventType = ty, log_description = descr,
              log_timestamp = now e, log_relatedId = Some rel\<rparr>]\<rparr>))"

text \<open>
  \<^verbatim>\<open>Model.findOneAndUpdate(filter, update, { new: true })\<close>: the first document that
  matches is updated in place and returned as updated; \<open>None\<close> is JavaScript's
  \<^verbatim>\<open>null\<close>.
\<close>

fun findOneAndUpdate :: "('a \<Rightarrow> bool) \<Rightarrow> ('a \<Rightarrow> 'a) \<Rightarrow> 'a list \<Rightarrow> 'a option \<times> 'a list" where
  "findOneAndUpdate p f [] = (None, [])"
| "findOneAndUpdate p f (x # xs) =
     (if p x then (Some (f x), f x # xs)
      else (case findOneAndUpdate p f xs of (r, ys) \<Rightarrow> (r, x # ys)))"

fun findOne :: "('a \<Rightarrow> bool) \<Rightarrow> 'a list \<Rightarrow> 'a option" where
  "findOne p [] = None"
| "findOne p (x # xs) = (if p x then Some x else findOne p xs)"

text \<open>\<^verbatim>\<open>String.prototype.toUpperCase\<close> on the ASCII letters.\<close>

definition upper_char :: "char \<Rightarrow> char" where
  "upper_char c =
     (let n = (of_char c :: nat) in if 97 \<le> n \<and> n \<le> 122 then char_of (n - 32) else c)"

definition toUpperCase :: "string \<Rightarrow> string" where
  "toUpperCase s = map upper_char s"

section \<open>The webhook: \<^verbatim>\<open>app.post('/stripe-webhook')\<close>\<close>

subsection \<open>The branches of the switch\<close>

definition dispute_try :: "env \<Rightarrow> string \<Rightarrow> state \<Rightarrow> flow" where
  "dispute_try e ch s =
     (let s1 = stripe_called (RefundsCreate ch) s in
      case refunds_create e ch of
        Some m \<Rightarrow> Thrown m s1
      | None \<Rightarrow>
          (let s2 = console_log (''Auto-refund initiated for charge '' @ ch @ ''.'') s1;
               s3 = console_log (''ADMIN NOTIFICATION: Fraud warning for charge '' @ ch @
                      ''. Auto-refund initiated.'') s2
           in ActivityLog_create e 550 ''fraud_warning_refund''
                (''Fraud warning: Dispute created for charge '' @ ch @
                 ''. Auto-refund initiated.'') ch s3))"

definition dispute_catch :: "env \<Rightarrow> string \<Rightarrow> string \<Rightarrow> state \<Rightarrow> flow" where
  "dispute_catch e ch m s =
     (let s1 = console_error (''Error initiating auto-refund for charge '' @ ch @ '': '' @ m) s;
          s2 = console_log (''ADMIN NOTIFICATION: Fraud warning for charge '' @ ch @
                 ''. Auto-refund FAILED.'') s1
      in ActivityLog_create e 561 ''fraud_warning_refund_failed''
           (''Fraud warning: Dispute created for charge '' @ ch @
            ''. Auto-refund FAILED. Error: '' @ m) ch s2)"

definition charge_dispute_created :: "env \<Rightarrow> event \<Rightarrow> state \<Rightarrow> flow" where
  "charge_dispute_created e ev s =
     (let ch = obj_charge (ev_object ev);
          s0 = console_log (''Fraud warning: Dispute created for charge '' @ ch @ ''.'') s
      in case dispute_try e ch s0 of
           Returned s' \<Rightarrow> Returned s'
         | Thrown m s' \<Rightarrow> dispute_catch e ch m s')"

definition subscription_try :: "env \<Rightarrow> string \<Rightarrow> string \<Rightarrow> state \<Rightarrow> flow" where
  "subscription_try e cid newStatus s =
     (case store_error e 574 of
        Some m \<Rightarrow> Thrown m s
      | None \<Rightarrow>
          (case findOneAndUpdate (\<lambda>v. v_stripeCustomerId v = cid)
                  (\<lambda>v. v\<lparr>v_subscriptionStatus := newStatus\<rparr>) (vendors s) of
             (Some v, vs) \<Rightarrow>
               ActivityLog_create e 582 ''subscription_status_updated''
                 (''Vendor '' @ v_username v @ '' subscription status updated to '' @
                  newStatus @ ''.'') (v_oid v)
                 (console_log (''Vendor '' @ v_username v @
                    '' subscription status updated to '' @ newStatus @ ''.'')
                    (s\<lparr>vendors := vs\<rparr>))
           | (None, vs) \<Rightarrow>
               Returned (console_log
                 (''Vendor not found for Stripe Customer ID: '' @ cid @ ''.'') s)))"

definition customer_subscription_updated :: "env \<Rightarrow> event \<Rightarrow> state \<Rightarrow> flow" where
  "customer_subscription_updated e ev s =
     (let cid = obj_customer (ev_object ev);
          newStatus = obj_status (ev_object ev);
          s0 = console_log (''Subscription updated for customer '' @ cid @
                 ''. New status: '' @ newStatus) s
      in case subscription_try e cid newStatus s0 of
           Returned s' \<Rightarrow> Returned s'
         | Thrown m s' \<Rightarrow>
             Returned (console_error (''Error updating vendor subscription status: '' @ m) s'))"

definition invoice_try :: "env \<Rightarrow> string \<Rightarrow> state \<Rightarrow> flow" where
  "invoice_try e iid s =
     (case store_error e 598 of
        Some m \<Rightarrow> Thrown m s
      | None \<Rightarrow>
          (case findOneAndUpdate (\<lambda>i. inv_id i = iid)
                  (\<lambda>i. i\<lparr>inv_status := ''paid''\<rparr>) (invoices s) of
             (Some i, is) \<Rightarrow>
               ActivityLog_create e 606 ''invoice_paid''
                 (''Invoice '' @ inv_id i @ '' paid successfully.'') (inv_oid i)
                 (console_log (''Invoice '' @ inv_id i @ '' status updated to paid.'')
                    (s\<lparr>invoices := is\<rparr>))
           | (None, is) \<Rightarrow>
               Returned (console_log (''Invoice not found for ID: '' @ iid @ ''.'') s)))"

definition invoice_payment_succeeded :: "env \<Rightarrow> event \<Rightarrow> state \<Rightarrow> flow" where
  "invoice_payment_succeeded e ev s =
     (let iid = obj_id (ev_object ev);
          s0 = console_log (''Invoice payment succeeded for invoice ID: '' @ iid) s
      in case invoice_try e iid s0 of
           Returned s' \<Rightarrow> Returned s'
         | Thrown m s' \<Rightarrow>
             Returned (console_error (''Error updating invoice status: '' @ m) s'))"

definition payout_succeeded :: "env \<Rightarrow> event \<Rightarrow> state \<Rightarrow> flow" where
  "payout_succeeded e ev s =
     (let p = ev_object ev;
          s0 = console_log (''Payout succeeded for ID: '' @ obj_id p @ ''.'') s
      in ActivityLog_create e 622 ''payout_succeeded''
           (''Payout succeeded for ID: '' @ obj_id p @ ''. Amount: '' @
            fmt_div100 e (obj_amount p) @ '' '' @ toUpperCase (obj_currency p) @ ''.'')
           (obj_id p) s0)"

text \<open>\<^verbatim>\<open>failure_code || 'N/A'\<close>: the empty string is falsy too.\<close>

definition failure_reason :: "event_object \<Rightarrow> string" where
  "failure_reason p =
     (case obj_failure_code p of
        None \<Rightarrow> ''N/A''
      | Some c \<Rightarrow> if c = [] then ''N/A'' else c)"

definition payout_failed :: "env \<Rightarrow> event \<Rightarrow> state \<Rightarrow> flow" where
  "payout_failed e ev s =
     (let p = ev_object ev;
          s0 = console_log (''Payout failed for ID: '' @ obj_id p @ ''. Reason: '' @
                 failure_reason p @ ''.'') s
      in ActivityLog_create e 631 ''payout_failed''
           (''Payout failed for ID: '' @ obj_id p @ ''. Reason: '' @
            failure_reason p @ ''.'')
           (obj_id p) s0)"

definition charge_refunded :: "env \<Rightarrow> event \<Rightarrow> state \<Rightarrow> flow" where
  "charge_refunded e ev s =
     (let c = ev_object ev;
          s0 = console_log (''Charge refunded for ID: '' @ obj_id c @ ''.'') s
      in ActivityLog_create e 640 ''charge_refunded''
           (''Charge refunded for ID: '' @ obj_id c @ ''. Amount: '' @
            fmt_div100 e (obj_amount_refunded c) @ '' '' @
            toUpperCase (obj_currency c) @ ''.'')
           (obj_id c) s0)"

definition unhandled_event :: "env \<Rightarrow> event \<Rightarrow> state \<Rightarrow> flow" where
  "unhandled_event e ev s =
     Returned (console_log (''Unhandled event type '' @ ev_type ev) s)"

subsection \<open>The switch statement\<close>

text \<open>
  The switch is kept as JavaScript runs it: a list of clauses, each a label (\<open>None\<close> for
  \<^verbatim>\<open>default\<close>) and its statements. Control enters at the first clause whose label is
  strictly equal to the event type (at \<^verbatim>\<open>default\<close> when there is none) and runs the
  statements of that clause and of every clause after it, until a \<^verbatim>\<open>break\<close>. The clause
  of \<^verbatim>\<open>invoice.payment_succeeded\<close> ends in two \<^verbatim>\<open>break\<close> statements (lines 617 and 618).
\<close>

datatype branch =
    DisputeCreated
  | SubscriptionUpdated
  | InvoicePaymentSucceeded
  | PayoutSucceeded
  | PayoutFailed
  | ChargeRefunded
  | Unhandled

datatype stmt = Body branch | Break

type_synonym clause = "string option \<times> stmt list"

definition webhook_switch :: "clause list" where
  "webhook_switch =
     [(Some ''charge.dispute.created'', [Body DisputeCreated, Break]),
      (Some ''customer.subscription.updated'', [Body SubscriptionUpdated, Break]),
      (Some ''invoice.payment_succeeded'', [Body InvoicePaymentSucceeded, Break, Break]),
      (Some ''payout.succeeded'', [Body PayoutSucceeded, Break]),
      (Some ''payout.failed'', [Body PayoutFailed, Break]),
      (Some ''charge.refunded'', [Body ChargeRefunded, Break]),
      (None, [Body Unhandled])]"

fun enter_at :: "string option \<Rightarrow> clause list \<Rightarrow> stmt list option" where
  "enter_at l [] = None"
| "enter_at l ((l', ss) # cs) =
     (if l' = l then Some (ss @ concat (map snd cs)) else enter_at l cs)"

definition selected :: "string \<Rightarrow> clause list \<Rightarrow> stmt list" where
  "selected t cs =
     (case enter_at (Some t) cs of
        Some ss \<Rightarrow> ss
      | None \<Rightarrow> (case enter_at None cs of Some ss \<Rightarrow> ss | None \<Rightarrow> []))"

fun until_break :: "stmt list \<Rightarrow> branch list" where
  "until_break [] = []"
| "until_break (Break # ss) = []"
| "until_break (Body b # ss) = b # until_break ss"

definition dispatch :: "string \<Rightarrow> branch list" where
  "dispatch t = until_break (selected t webhook_switch)"

fun run_branch :: "branch \<Rightarrow> env \<Rightarrow> event \<Rightarrow> state \<Rightarrow> flow" where
  "run_branch DisputeCreated = charge_dispute_created"
| "run_branch SubscriptionUpdated = customer_subscription_updated"
| "run_branch InvoicePaymentSucceeded = invoice_payment_succeeded"
| "run_branch PayoutSucceeded = payout_succeeded"
| "run_branch PayoutFailed = payout_failed"
| "run_branch ChargeRefunded = charge_refunded"
| "run_branch Unhandled = unhandled_event"

fun run_branches :: "branch list \<Rightarrow> env \<Rightarrow> event \<Rightarrow> state \<Rightarrow> flow" where
  "run_branches [] e ev s = Returned s"
| "run_branches (b # bs) e ev s =
     (case run_branch b e ev s of
        Returned s' \<Rightarrow> run_branches bs e ev s'
      | Thrown m s' \<Rightarrow> Thrown m s')"

subsection \<open>The route\<close>

record webhook_request =
  wh_body :: string
  wh_signature :: "string option"

definition received :: body where
  "received = Json (JObj [(''received'', JBool True)])"

text \<open>
  The route answers \<open>None\<close> when the async handler rejects without having answered: an
  exception that no \<^verbatim>\<open>catch\<close> of the handler takes.

  \<open>wh_body\<close> is \<^verbatim>\<open>req.body\<close> as the route finds it. The JSON parser of line 78 is
  registered for every route and runs before the raw parser of this one, which then
  finds the body parsed already: the route hands \<open>constructEvent\<close> the parsed object
  and not the bytes that the processor signed. What the processor's library answers to
  that is the library's matter, and \<open>constructEvent\<close> is a parameter: the theorems
  about a verified event say what the handler does once the library accepts a delivery.
\<close>

definition stripe_webhook :: "env \<Rightarrow> webhook_request \<Rightarrow> state \<Rightarrow> response option \<times> state" where
  "stripe_webhook e req s =
     (case constructEvent e (wh_body req) (wh_signature req) (STRIPE_WEBHOOK_SECRET e) of
        Inl m \<Rightarrow>
          (Some (respond 400 (Send (''Webhook Error: '' @ m))),
           console_error (''Webhook Error: '' @ m) s)
      | Inr ev \<Rightarrow>
          (case run_branches (dispatch (ev_type ev)) e ev s of
             Returned s' \<Rightarrow> (Some (respond 200 received), s')
           | Thrown m s' \<Rightarrow> (None, s')))"

section \<open>The other routes\<close>

subsection \<open>Helpers shared by the routes\<close>

type_synonym outcome = "response option \<times> state"

text \<open>
  The body of a \<^verbatim>\<open>try\<close> block of a route: it answers the request, or throws with the
  effects it had so far.
\<close>

datatype reply = Replied response state | Raised string state

text \<open>
  The \<^verbatim>\<open>catch (error)\<close> block that every route but the webhook ends in: the error goes
  to the console and the route answers 500 with a message and \<^verbatim>\<open>error.message\<close>.
\<close>

definition failure :: "string \<Rightarrow> string \<Rightarrow> body" where
  "failure m err = Json (JObj [(''message'', JStr m), (''error'', JStr err)])"

definition catch_500 :: "string \<Rightarrow> string \<Rightarrow> reply \<Rightarrow> outcome" where
  "catch_500 logline m r =
     (case r of
        Replied resp s \<Rightarrow> (Some resp, s)
      | Raised err s \<Rightarrow>
          (Some (respond 500 (failure m err)), console_error (logline @ '' '' @ err) s))"

definition message :: "string \<Rightarrow> body" where
  "message m = Json (JObj [(''message'', JStr m)])"

text \<open>
  A request field that may be missing; \<^verbatim>\<open>!x\<close> holds for a missing and for an empty one.
  But for the login route, whose fields are any JSON, the fields of a route are the
  strings and numbers that a client of the API sends.
\<close>

definition falsy :: "string option \<Rightarrow> bool" where
  "falsy x = (x = None \<or> x = Some [])"

definition shown :: "string option \<Rightarrow> string" where
  "shown x = (case x of None \<Rightarrow> ''undefined'' | Some s \<Rightarrow> s)"

definition jopt :: "string option \<Rightarrow> json" where
  "jopt x = (case x of None \<Rightarrow> JNull | Some s \<Rightarrow> JStr s)"

definition jdate :: "nat option \<Rightarrow> json" where
  "jdate x = (case x of None \<Rightarrow> JNull | Some t \<Rightarrow> JNum (int t))"

definition vendor_json :: "vendor \<Rightarrow> json" where
  "vendor_json v =
     JObj [(''_id'', JStr (v_oid v)),
           (''username'', JStr (v_username v)),
           (''password'', JStr (v_password v)),
           (''approved'', JBool (v_approved v)),
           (''customers'', JArr (map JStr (v_customers v))),
           (''stripeCustomerId'', JStr (v_stripeCustomerId v)),
           (''subscriptionStatus'', JStr (v_subscriptionStatus v)),
           (''trialEndsAt'', jdate (v_trialEndsAt v)),
           (''stripeConnectAccountId'', jopt (v_stripeConnectAccountId v))]"

definition invoice_json :: "invoice \<Rightarrow> json" where
  "invoice_json i =
     JObj [(''_id'', JStr (inv_oid i)),
           (''id'', JStr (inv_id i)),
           (''customerId'', JStr (inv_customerId i)),
           (''amount'', JNum (inv_amount i)),
           (''description'', jopt (inv_description i)),
           (''invoiceUrl'', jopt (inv_invoiceUrl i)),
           (''status'', JStr (inv_status i)),
           (''createdAt'', JNum (int (inv_createdAt i)))]"

definition activity_log_json :: "activity_log \<Rightarrow> json" where
  "activity_log_json l =
     JObj [(''eventType'', JStr (log_eventType l)),
           (''description'', JStr (log_description l)),
           (''timestamp'', JNum (int (log_timestamp l))),
           (''relatedId'', jopt (log_relatedId l))]"

text \<open>\<^verbatim>\<open>vendor.save()\<close> on a document that was read from the store.\<close>

definition save_vendor :: "vendor \<Rightarrow> state \<Rightarrow> state" where
  "save_vendor v s =
     s\<lparr>vendors := map (\<lambda>u. if v_oid u = v_oid v then v else u) (vendors s)\<rparr>"

text \<open>
  \<^verbatim>\<open>authenticateToken\<close>: the middleware reads the token from the cookie, answers 401
  without one and 403 for one that does not verify, and otherwise hands the request on
  with \<^verbatim>\<open>req.user\<close> set.
\<close>

definition authenticateToken ::
  "env \<Rightarrow> string option \<Rightarrow> (user \<Rightarrow> state \<Rightarrow> outcome) \<Rightarrow> state \<Rightarrow> outcome" where
  "authenticateToken e token next_handler s =
     (case token of
        None \<Rightarrow> (Some (respond 401 (Send ''Unauthorized'')), s)
      | Some t \<Rightarrow>
          (case jwt_verify e t of
             Inl m \<Rightarrow>
               (Some (respond 403 (Send ''Forbidden'')),
                console_error (''JWT Verification Error: '' @ m) s)
           | Inr u \<Rightarrow> next_handler u s))"

definition token_cookie :: "env \<Rightarrow> string \<Rightarrow> cookie_op" where
  "token_cookie e t = SetToken t (NODE_ENV e = Some ''production'')"

subsection \<open>\<^verbatim>\<open>app.get('/')\<close>\<close>

definition get_root :: "state \<Rightarrow> outcome" where
  "get_root s = (Some (respond 200 (Send ''Invoice Management Server is running!'')), s)"

subsection \<open>\<^verbatim>\<open>app.post('/register')\<close>\<close>

definition register_try :: "env \<Rightarrow> string \<Rightarrow> string \<Rightarrow> state \<Rightarrow> reply" where
  "register_try e username password s =
     (case store_error e 99 of
        Some m \<Rightarrow> Raised m s
      | None \<Rightarrow>
          (case findOne (\<lambda>v. v_username v = username) (vendors s) of
             Some existingVendor \<Rightarrow>
               Replied (respond 409 (message ''Vendor with this username already exists.'')) s
           | None \<Rightarrow>
               (let s1 = stripe_called (CustomersCreate username) s in
                case customers_create e (Some username) (Some username) of
                  Inl m \<Rightarrow> Raised m s1
                | Inr cid \<Rightarrow>
                    (let newVendor =
                       \<lparr>v_oid = new_oid e 113, v_username = username,
                        v_password = bcrypt_hash e password, v_approved = False,
                        v_customers = [], v_stripeCustomerId = cid,
                        v_subscriptionStatus = ''trialing'',
                        v_trialEndsAt = Some (now e + 30 * 24 * 60 * 60 * 1000),
                        v_stripeConnectAccountId = None\<rparr>
                     in case store_error e 124 of
                          Some m \<Rightarrow> Raised m s1
                        | None \<Rightarrow>
                            (let s2 = console_log (''New vendor registered: '' @ username)
                                        (s1\<lparr>vendors := vendors s1 @ [newVendor]\<rparr>)
                             in case ActivityLog_create e 128 ''vendor_registered''
                                       (''New vendor registered: '' @ username)
                                       (v_oid newVendor) s2 of
                                  Thrown m s3 \<Rightarrow> Raised m s3
                                | Returned s3 \<Rightarrow>
                                    Replied (respond 201 (message
                                      ''Vendor registered successfully. Awaiting admin approval.''))
                                      s3)))))"

definition register :: "env \<Rightarrow> string option \<Rightarrow> string option \<Rightarrow> state \<Rightarrow> outcome" where
  "register e username password s =
     (if falsy username \<or> falsy password
      then (Some (respond 400 (message ''Username and password are required.'')), s)
      else catch_500 ''Error during vendor registration:'' ''Failed to register vendor.''
             (register_try e (shown username) (shown password) s))"

subsection \<open>\<^verbatim>\<open>app.post('/login')\<close>\<close>

definition login_success :: "env \<Rightarrow> vendor \<Rightarrow> response" where
  "login_success e vendor =
     \<lparr>status = 200,
      body = Json (JObj
        [(''message'', JStr ''Login successful!''),
         (''vendor'', JObj
            [(''username'', JStr (v_username vendor)),
             (''approved'', JBool (v_approved vendor)),
             (''role'', JStr ''vendor''),
             (''subscriptionStatus'', JStr (v_subscriptionStatus vendor)),
             (''trialEndsAt'', jdate (v_trialEndsAt vendor))])]),
      cookie = Some (token_cookie e (jwt_sign e (v_username vendor) ''vendor''))\<rparr>"

text \<open>
  The body of the request is any JSON the client sends (the parser of line 78), and the
  route checks its two fields for truthiness only: a field may be absent (\<open>None\<close>) or
  any JSON value. A username that is a string is looked up by equality.
\<close>

fun truthy :: "json \<Rightarrow> bool" where
  "truthy JNull = False"
| "truthy (JBool b) = b"
| "truthy (JNum n) = (n \<noteq> 0)"
| "truthy (JQuot n d) = (n \<noteq> 0)"
| "truthy (JStr x) = (x \<noteq> [])"
| "truthy (JArr xs) = True"
| "truthy (JObj fs) = True"

text \<open>\<^verbatim>\<open>!x\<close> for a field that is there.\<close>

definition falsy_json :: "json \<Rightarrow> bool" where
  "falsy_json x = (\<not> truthy x)"

definition template :: "env \<Rightarrow> json option \<Rightarrow> string" where
  "template e x =
     (case x of
        None \<Rightarrow> ''undefined''
      | Some (JStr t) \<Rightarrow> t
      | Some v \<Rightarrow> template_text e v)"

definition username_filter :: "env \<Rightarrow> json \<Rightarrow> string + (string \<Rightarrow> bool)" where
  "username_filter e x =
     (case x of
        JStr u \<Rightarrow> Inr (\<lambda>n. n = u)
      | v \<Rightarrow> cast_filter e v)"

definition login_try :: "env \<Rightarrow> json \<Rightarrow> json \<Rightarrow> state \<Rightarrow> reply" where
  "login_try e username password s =
     (case store_error e 150 of
        Some m \<Rightarrow> Raised m s
      | None \<Rightarrow>
          (case username_filter e username of
             Inl m \<Rightarrow> Raised m s
           | Inr matches \<Rightarrow>
               (case findOne (\<lambda>v. matches (v_username v)) (vendors s) of
                  None \<Rightarrow> Replied (respond 401 (message ''Invalid credentials.'')) s
                | Some vendor \<Rightarrow>
                    (case bcrypt_compare e password (v_password vendor) of
                       Inl m \<Rightarrow> Raised m s
                     | Inr isMatch \<Rightarrow>
                         if \<not> isMatch
                         then Replied (respond 401 (message ''Invalid credentials.'')) s
                         else if \<not> v_approved vendor
                         then Replied (respond 403 (message
                                ''Your account is awaiting admin approval.'')) s
                         else Replied (login_success e vendor) s))))"

definition login :: "env \<Rightarrow> json option \<Rightarrow> json option \<Rightarrow> state \<Rightarrow> outcome" where
  "login e username password s =
     (let s0 = console_log (''Login attempt for username: '' @ template e username @
                  '', password: '' @ template e password) s;
          required = (Some (respond 400 (message ''Username and password are required.'')), s0)
      in case username of
           None \<Rightarrow> required
         | Some u \<Rightarrow>
             (case password of
                None \<Rightarrow> required
              | Some p \<Rightarrow>
                  if falsy_json u \<or> falsy_json p then required
                  else catch_500 ''Error during vendor login:'' ''Login failed.''
                         (login_try e u p s0)))"

subsection \<open>\<^verbatim>\<open>app.post('/admin/login')\<close>\<close>

definition admin_login :: "env \<Rightarrow> string option \<Rightarrow> string option \<Rightarrow> state \<Rightarrow> outcome" where
  "admin_login e username password s =
     (let s0 = console_log (''Admin Login attempt for username: '' @ shown username @
                  '', password: '' @ shown password) s
      in if username = Some ''admin'' \<and> password = Some ''adminpass''
         then (Some \<lparr>status = 200,
                 body = Json (JObj
                   [(''message'', JStr ''Admin login successful!''),
                    (''user'', JObj [(''username'', JStr ''admin''), (''role'', JStr ''admin'')])]),
                 cookie = Some (token_cookie e (jwt_sign e ''admin'' ''admin''))\<rparr>, s0)
         else (Some (respond 401 (message ''Invalid admin credentials.'')), s0))"

subsection \<open>\<^verbatim>\<open>app.get('/admin/vendors/pending')\<close>\<close>

definition admin_vendors_pending :: "env \<Rightarrow> string option \<Rightarrow> state \<Rightarrow> outcome" where
  "admin_vendors_pending e token =
     authenticateToken e token (\<lambda>u s.
       catch_500 ''Error fetching pending vendors:'' ''Failed to fetch pending vendors.''
         (case store_error e 200 of
            Some m \<Rightarrow> Raised m s
          | None \<Rightarrow>
              Replied (respond 200 (Json (JArr (map vendor_json
                (filter (\<lambda>v. \<not> v_approved v) (vendors s)))))) s))"

subsection \<open>\<^verbatim>\<open>app.post('/admin/vendors/approve')\<close>\<close>

definition admin_vendors_approve :: "env \<Rightarrow> string option \<Rightarrow> string \<Rightarrow> state \<Rightarrow> outcome" where
  "admin_vendors_approve e token username =
     authenticateToken e token (\<lambda>u s.
       catch_500 ''Error approving vendor:'' ''Failed to approve vendor.''
         (case store_error e 212 of
            Some m \<Rightarrow> Raised m s
          | None \<Rightarrow>
              (case findOneAndUpdate (\<lambda>v. v_username v = username)
                      (\<lambda>v. v\<lparr>v_approved := True\<rparr>) (vendors s) of
                 (Some vendor, vs) \<Rightarrow>
                   (case ActivityLog_create e 216 ''vendor_approved''
                           (''Vendor approved: '' @ username) (v_oid vendor)
                           (s\<lparr>vendors := vs\<rparr>) of
                      Thrown m s1 \<Rightarrow> Raised m s1
                    | Returned s1 \<Rightarrow>
                        Replied (respond 200 (message
                          (''Vendor '' @ username @ '' approved successfully.''))) s1)
               | (None, vs) \<Rightarrow> Replied (respond 404 (message ''Vendor not found.'')) s)))"

subsection \<open>\<^verbatim>\<open>app.post('/create-customer')\<close>\<close>

definition create_customer ::
  "env \<Rightarrow> string option \<Rightarrow> string option \<Rightarrow> string option \<Rightarrow> state \<Rightarrow> outcome" where
  "create_customer e email name phone s =
     catch_500 ''Error creating Stripe customer:'' ''Failed to create Stripe customer.''
       (let s1 = stripe_called (CustomersCreate (shown email)) s in
        case customers_create e email name of
          Inl m \<Rightarrow> Raised m s1
        | Inr cid \<Rightarrow>
            (case ActivityLog_create e 243 ''customer_added''
                    (''New customer added: '' @ shown name @ '' ('' @ shown email @ '')'')
                    cid s1 of
               Thrown m s2 \<Rightarrow> Raised m s2
             | Returned s2 \<Rightarrow>
                 Replied (respond 201 (Json (JObj
                   [(''message'', JStr ''Stripe customer created successfully.''),
                    (''customerId'', JStr cid)]))) s2))"

subsection \<open>\<^verbatim>\<open>app.post('/create-setup-intent')\<close>\<close>

definition create_setup_intent :: "env \<Rightarrow> string \<Rightarrow> state \<Rightarrow> outcome" where
  "create_setup_intent e customerId s =
     catch_500 ''Error creating SetupIntent:'' ''Failed to create SetupIntent.''
       (let s1 = stripe_called (SetupIntentsCreate customerId) s in
        case setupIntents_create e customerId of
          Inl m \<Rightarrow> Raised m s1
        | Inr secret \<Rightarrow>
            Replied (respond 200 (Json (JObj [(''clientSecret'', JStr secret)]))) s1)"

subsection \<open>\<^verbatim>\<open>app.post('/vendor/add-customer')\<close>\<close>

definition vendor_add_customer ::
  "env \<Rightarrow> string option \<Rightarrow> string \<Rightarrow> string \<Rightarrow> state \<Rightarrow> outcome" where
  "vendor_add_customer e token vendorUsername customerId =
     authenticateToken e token (\<lambda>u s.
       catch_500 ''Error associating customer with vendor:''
         ''Failed to associate customer with vendor.''
         (case store_error e 277 of
            Some m \<Rightarrow> Raised m s
          | None \<Rightarrow>
              (case findOne (\<lambda>v. v_username v = vendorUsername) (vendors s) of
                 None \<Rightarrow> Replied (respond 404 (message ''Vendor not found.'')) s
               | Some vendor \<Rightarrow>
                   if customerId \<notin> set (v_customers vendor)
                   then (case store_error e 285 of
                           Some m \<Rightarrow> Raised m s
                         | None \<Rightarrow>
                             Replied (respond 200 (message
                               ''Customer associated with vendor successfully.''))
                               (save_vendor
                                  (vendor\<lparr>v_customers := v_customers vendor @ [customerId]\<rparr>) s))
                   else Replied (respond 409 (message
                          ''Customer already associated with this vendor.'')) s)))"

subsection \<open>\<^verbatim>\<open>app.get('/vendor/customers/:username')\<close>\<close>

text \<open>
  The route maps the vendor's customers with \<^verbatim>\<open>Promise.all\<close>; the model takes them one
  after the other. A customer whose remote lookups throw is replaced by a placeholder.
\<close>

definition last_invoice_json :: "env \<Rightarrow> stripe_invoice list \<Rightarrow> json" where
  "last_invoice_json e invs =
     (case invs of
        [] \<Rightarrow> JNull
      | lastInvoice # rest \<Rightarrow>
          JObj [(''id'', JStr (si_id lastInvoice)),
                (''amount'', JQuot (si_amount_due lastInvoice) 100),
                (''currency'', JStr (toUpperCase (si_currency lastInvoice))),
                (''date'', JStr (toLocaleDateString e (si_created lastInvoice * 1000))),
                (''status'', JStr (si_status lastInvoice)),
                (''url'', jopt (si_hosted_invoice_url lastInvoice))])"

definition customer_placeholder :: "string \<Rightarrow> json" where
  "customer_placeholder customerId =
     JObj [(''id'', JStr customerId),
           (''name'', JStr (''Customer '' @ customerId @ '' (Error)'')),
           (''email'', JStr ''error@example.com''),
           (''lastInvoice'', JNull)]"

definition enrich_failed :: "string \<Rightarrow> string \<Rightarrow> state \<Rightarrow> json \<times> state" where
  "enrich_failed customerId m s =
     (customer_placeholder customerId,
      console_error (''Error fetching Stripe customer or invoice for '' @ customerId @
        '': '' @ m) s)"

definition enrich_customer :: "env \<Rightarrow> string \<Rightarrow> state \<Rightarrow> json \<times> state" where
  "enrich_customer e customerId s =
     (let s1 = stripe_called (CustomersRetrieve customerId) s in
      case customers_retrieve e customerId of
        Inl m \<Rightarrow> enrich_failed customerId m s1
      | Inr stripeCustomer \<Rightarrow>
          (let s2 = stripe_called (InvoicesList customerId) s1 in
           case invoices_list e customerId of
             Inl m \<Rightarrow> enrich_failed customerId m s2
           | Inr lastInvoices \<Rightarrow>
               (JObj [(''id'', JStr (cus_id stripeCustomer)),
                      (''name'', jopt (cus_name stripeCustomer)),
                      (''email'', jopt (cus_email stripeCustomer)),
                      (''phone'', jopt (cus_phone stripeCustomer)),
                      (''lastInvoice'', last_invoice_json e lastInvoices)], s2)))"

fun enrich_customers :: "env \<Rightarrow> string list \<Rightarrow> state \<Rightarrow> json list \<times> state" where
  "enrich_customers e [] s = ([], s)"
| "enrich_customers e (c # cs) s =
     (case enrich_customer e c s of
        (j, s1) \<Rightarrow> (case enrich_customers e cs s1 of (js, s2) \<Rightarrow> (j # js, s2)))"

definition vendor_customers :: "env \<Rightarrow> string option \<Rightarrow> string \<Rightarrow> state \<Rightarrow> outcome" where
  "vendor_customers e token username =
     authenticateToken e token (\<lambda>u s.
       catch_500 ''Error fetching vendor customers:'' ''Failed to fetch vendor customers.''
         (case store_error e 300 of
            Some m \<Rightarrow> Raised m s
          | None \<Rightarrow>
              (case findOne (\<lambda>v. v_username v = username) (vendors s) of
                 None \<Rightarrow> Replied (respond 404 (message ''Vendor not found.'')) s
               | Some vendor \<Rightarrow>
                   (case enrich_customers e (v_customers vendor) s of
                      (enrichedCustomers, s1) \<Rightarrow>
                        Replied (respond 200 (Json (JArr enrichedCustomers))) s1))))"

subsection \<open>\<^verbatim>\<open>app.post('/create-payment-intent')\<close>\<close>

definition create_payment_intent ::
  "env \<Rightarrow> string option \<Rightarrow> string \<Rightarrow> int \<Rightarrow> state \<Rightarrow> outcome" where
  "create_payment_intent e token customerId amount =
     authenticateToken e token (\<lambda>u s.
       catch_500 ''Error creating Payment Intent:'' ''Failed to create Payment Intent.''
         (let s1 = stripe_called (PaymentMethodsList customerId) s in
          case paymentMethods_list e customerId of
            Inl m \<Rightarrow> Raised m s1
          | Inr [] \<Rightarrow>
              Replied (respond 400 (message ''No payment method found for this customer.'')) s1
          | Inr (pm # rest) \<Rightarrow>
              (let s2 = stripe_called (PaymentIntentsCreate customerId (amount * 100) pm) s1 in
               case paymentIntents_create e customerId (amount * 100) pm of
                 Inl m \<Rightarrow> Raised m s2
               | Inr pid \<Rightarrow>
                   Replied (respond 200 (Json (JObj
                     [(''message'', JStr ''Payment successful!''),
                      (''paymentIntentId'', JStr pid)]))) s2)))"

subsection \<open>\<^verbatim>\<open>app.post('/create-invoice')\<close>\<close>

text \<open>
  Both branches answer the request first and write the local records afterwards. When
  a write throws the \<^verbatim>\<open>catch\<close> block logs the error; the 500 it then tries to send
  comes after the answer that is already out, which stays the answer of the request.
\<close>

definition invoice_answer :: "string \<Rightarrow> stripe_invoice \<Rightarrow> response" where
  "invoice_answer m invoice =
     respond 200 (Json (JObj
       [(''message'', JStr m),
        (''invoiceId'', JStr (si_id invoice)),
        (''invoiceUrl'', jopt (si_hosted_invoice_url invoice))]))"

definition local_invoice ::
  "env \<Rightarrow> nat \<Rightarrow> stripe_invoice \<Rightarrow> string \<Rightarrow> int \<Rightarrow> string option \<Rightarrow> string \<Rightarrow> invoice" where
  "local_invoice e site invoice customerId amount description st =
     \<lparr>inv_oid = new_oid e site, inv_id = si_id invoice, inv_customerId = customerId,
      inv_amount = amount, inv_description = description,
      inv_invoiceUrl = si_hosted_invoice_url invoice, inv_status = st,
      inv_createdAt = now e\<rparr>"

text \<open>
  The tail of a branch, after the answer was sent: save the invoice (the store call of
  line \<open>save_site\<close>), then write the ledger entry (line \<open>log_site\<close>).
\<close>

definition record_invoice ::
  "env \<Rightarrow> nat \<Rightarrow> nat \<Rightarrow> response \<Rightarrow> invoice \<Rightarrow> string \<Rightarrow> string \<Rightarrow> state \<Rightarrow> outcome" where
  "record_invoice e save_site log_site answer doc ty descr s =
     (case store_error e save_site of
        Some m \<Rightarrow> (Some answer, console_error (''Error creating Invoice: '' @ m) s)
      | None \<Rightarrow>
          (case ActivityLog_create e log_site ty descr (inv_id doc)
                  (s\<lparr>invoices := invoices s @ [doc]\<rparr>) of
             Thrown m s1 \<Rightarrow> (Some answer, console_error (''Error creating Invoice: '' @ m) s1)
           | Returned s1 \<Rightarrow> (Some answer, s1)))"

definition invoice_failed :: "string \<Rightarrow> state \<Rightarrow> outcome" where
  "invoice_failed m s =
     (Some (respond 500 (failure ''Failed to create Invoice.'' m)),
      console_error (''Error creating Invoice: '' @ m) s)"

definition invoice_charged ::
  "env \<Rightarrow> string \<Rightarrow> int \<Rightarrow> string option \<Rightarrow> state \<Rightarrow> outcome" where
  "invoice_charged e customerId amount description s =
     (let s1 = stripe_called (InvoicesCreate customerId ''charge_automatically'') s in
      case invoices_create e customerId ''charge_automatically'' of
        Inl m \<Rightarrow> invoice_failed m s1
      | Inr draft \<Rightarrow>
          (let s2 = stripe_called (InvoicesFinalize (si_id draft)) s1 in
           case invoices_finalize e (si_id draft) of
             Inl m \<Rightarrow> invoice_failed m s2
           | Inr invoice \<Rightarrow>
               record_invoice e 405 408
                 (invoice_answer ''Invoice created and charged automatically!'' invoice)
                 (local_invoice e 404 invoice customerId amount description ''paid'')
                 ''invoice_created_and_paid''
                 (''Invoice created and automatically paid for customer '' @ customerId @
                  ''. Amount: '' @ fmt_num e amount)
                 s2))"

definition invoice_sent_manually ::
  "env \<Rightarrow> string \<Rightarrow> int \<Rightarrow> string option \<Rightarrow> state \<Rightarrow> outcome" where
  "invoice_sent_manually e customerId amount description s =
     (let s1 = stripe_called (InvoicesCreate customerId ''send_invoice'') s in
      case invoices_create e customerId ''send_invoice'' of
        Inl m \<Rightarrow> invoice_failed m s1
      | Inr invoice \<Rightarrow>
          record_invoice e 423 426
            (invoice_answer ''Invoice created successfully (manual send required)!'' invoice)
            (local_invoice e 422 invoice customerId amount description ''open'')
            ''invoice_created''
            (''Invoice created for customer '' @ customerId @ ''. Amount: '' @
             fmt_num e amount @ ''. Manual send required.'')
            s1)"

definition create_invoice ::
  "env \<Rightarrow> string option \<Rightarrow> string \<Rightarrow> int \<Rightarrow> string option \<Rightarrow> state \<Rightarrow> outcome" where
  "create_invoice e token customerId amount description =
     authenticateToken e token (\<lambda>u s.
       (let s1 = stripe_called (InvoiceItemsCreate customerId (amount * 100)) s in
        case invoiceItems_create e customerId (amount * 100) description of
          Some m \<Rightarrow> invoice_failed m s1
        | None \<Rightarrow>
            (let s2 = stripe_called (CustomersRetrieve customerId) s1 in
             case customers_retrieve e customerId of
               Inl m \<Rightarrow> invoice_failed m s2
             | Inr customer \<Rightarrow>
                 if cus_default_payment_method customer \<noteq> None
                 then invoice_charged e customerId amount description s2
                 else invoice_sent_manually e customerId amount description s2)))"

subsection \<open>\<^verbatim>\<open>app.post('/vendor/create-subscription')\<close>\<close>

definition subscribe_vendor ::
  "env \<Rightarrow> string \<Rightarrow> string \<Rightarrow> vendor \<Rightarrow> state \<Rightarrow> reply" where
  "subscribe_vendor e vendorUsername paymentMethodId vendor s =
     (let s1 = stripe_called (PaymentMethodsAttach paymentMethodId (v_stripeCustomerId vendor)) s in
      case paymentMethods_attach e paymentMethodId (v_stripeCustomerId vendor) of
        Some m \<Rightarrow> Raised m s1
      | None \<Rightarrow>
          (let s2 = stripe_called (CustomersUpdate (v_stripeCustomerId vendor) paymentMethodId) s1 in
           case customers_update e (v_stripeCustomerId vendor) paymentMethodId of
             Some m \<Rightarrow> Raised m s2
           | None \<Rightarrow>
               (let s3 = stripe_called (SubscriptionsCreate (v_stripeCustomerId vendor)) s2 in
                case subscriptions_create e (v_stripeCustomerId vendor) of
                  Inl m \<Rightarrow> Raised m s3
                | Inr (subscriptionId, subscriptionStatus) \<Rightarrow>
                    (case store_error e 472 of
                       Some m \<Rightarrow> Raised m s3
                     | None \<Rightarrow>
                         (let vendor' = vendor\<lparr>v_subscriptionStatus := subscriptionStatus\<rparr>;
                              s4 = console_log (''Vendor '' @ vendorUsername @ '' subscribed: '' @
                                     subscriptionStatus) (save_vendor vendor' s3)
                          in case ActivityLog_create e 476 ''vendor_subscribed''
                                    (''Vendor '' @ vendorUsername @
                                     '' subscribed to plan. Status: '' @ subscriptionStatus)
                                    (v_oid vendor) s4 of
                               Thrown m s5 \<Rightarrow> Raised m s5
                             | Returned s5 \<Rightarrow>
                                 Replied (respond 200 (Json (JObj
                                   [(''message'', JStr ''Subscription successful!''),
                                    (''subscriptionId'', JStr subscriptionId),
                                    (''vendor'', vendor_json vendor')]))) s5)))))"

definition vendor_create_subscription ::
  "env \<Rightarrow> string option \<Rightarrow> string \<Rightarrow> string \<Rightarrow> state \<Rightarrow> outcome" where
  "vendor_create_subscription e token vendorUsername paymentMethodId =
     authenticateToken e token (\<lambda>u s.
       catch_500 ''Error creating subscription:'' ''Failed to create subscription.''
         (case store_error e 445 of
            Some m \<Rightarrow> Raised m s
          | None \<Rightarrow>
              (case findOne (\<lambda>v. v_username v = vendorUsername) (vendors s) of
                 None \<Rightarrow> Replied (respond 404 (message ''Vendor not found.'')) s
               | Some vendor \<Rightarrow> subscribe_vendor e vendorUsername paymentMethodId vendor s)))"

subsection \<open>\<^verbatim>\<open>app.post('/vendor/request-payout')\<close>\<close>

definition pay_out :: "env \<Rightarrow> int \<Rightarrow> vendor \<Rightarrow> string \<Rightarrow> state \<Rightarrow> reply" where
  "pay_out e amount vendor account s =
     (let s1 = stripe_called (PayoutsCreate (amount * 100) account) s in
      case payouts_create e (amount * 100) account of
        Inl m \<Rightarrow> Raised m s1
      | Inr payoutId \<Rightarrow>
          (let s2 = console_log (''Payout of '' @ fmt_num e amount @ '' to '' @ v_username vendor @
                      '' (Stripe Connect Account: '' @ account @ '') initiated. Payout ID: '' @
                      payoutId) s1
           in case ActivityLog_create e 512 ''payout_requested''
                     (''Payout of '' @ fmt_num e amount @ '' requested by '' @
                      v_username vendor @ ''. Payout ID: '' @ payoutId) payoutId s2 of
                Thrown m s3 \<Rightarrow> Raised m s3
              | Returned s3 \<Rightarrow>
                  Replied (respond 200 (message
                    (''Payout of '' @ fmt_num e amount @ '' requested successfully for '' @
                     v_username vendor @ ''. Payout ID: '' @ payoutId))) s3))"

text \<open>\<^verbatim>\<open>!vendor.stripeConnectAccountId\<close>: no account, or an empty identifier.\<close>

definition vendor_request_payout ::
  "env \<Rightarrow> string option \<Rightarrow> string \<Rightarrow> int \<Rightarrow> state \<Rightarrow> outcome" where
  "vendor_request_payout e token vendorUsername amount =
     authenticateToken e token (\<lambda>u s.
       catch_500 ''Error requesting payout:'' ''Failed to request payout.''
         (case store_error e 494 of
            Some m \<Rightarrow> Raised m s
          | None \<Rightarrow>
              (case findOne (\<lambda>v. v_username v = vendorUsername) (vendors s) of
                 None \<Rightarrow> Replied (respond 404 (message ''Vendor not found.'')) s
               | Some vendor \<Rightarrow>
                   if falsy (v_stripeConnectAccountId vendor)
                   then Replied (respond 400 (message
                          ''Stripe Express account not connected for this vendor.'')) s
                   else pay_out e amount vendor (shown (v_stripeConnectAccountId vendor)) s)))"

subsection \<open>\<^verbatim>\<open>app.get('/admin/vendors/all')\<close>\<close>

definition vendor_matches ::
  "env \<Rightarrow> string option \<Rightarrow> string option \<Rightarrow> string option \<Rightarrow> vendor \<Rightarrow> bool" where
  "vendor_matches e search approved subscriptionStatus v =
     ((falsy search \<or> regex_i e (shown search) (v_username v)) \<and>
      (approved = None \<or> v_approved v = (approved = Some ''true'')) \<and>
      (falsy subscriptionStatus \<or> v_subscriptionStatus v = shown subscriptionStatus))"

definition vendor_summary :: "vendor \<Rightarrow> json" where
  "vendor_summary v =
     JObj [(''username'', JStr (v_username v)),
           (''approved'', JBool (v_approved v)),
           (''subscriptionStatus'', JStr (v_subscriptionStatus v)),
           (''trialEndsAt'', jdate (v_trialEndsAt v)),
           (''stripeCustomerId'', JStr (v_stripeCustomerId v))]"

definition admin_vendors_all ::
  "env \<Rightarrow> string option \<Rightarrow> string option \<Rightarrow> string option \<Rightarrow> string option \<Rightarrow>
   state \<Rightarrow> outcome" where
  "admin_vendors_all e token search approved subscriptionStatus =
     authenticateToken e token (\<lambda>u s.
       catch_500 ''Error fetching all vendors:'' ''Failed to fetch all vendors.''
         (case store_error e 671 of
            Some m \<Rightarrow> Raised m s
          | None \<Rightarrow>
              Replied (respond 200 (Json (JArr (map vendor_summary
                (filter (vendor_matches e search approved subscriptionStatus) (vendors s))))))
                s))"

subsection \<open>\<^verbatim>\<open>app.get('/admin/analytics')\<close>\<close>

definition admin_analytics :: "env \<Rightarrow> string option \<Rightarrow> state \<Rightarrow> outcome" where
  "admin_analytics e token =
     authenticateToken e token (\<lambda>u s.
       catch_500 ''Error fetching analytics:'' ''Failed to fetch analytics.''
         (case store_error e 688 of
            Some m \<Rightarrow> Raised m s
          | None \<Rightarrow>
              (case store_error e 689 of
                 Some m \<Rightarrow> Raised m s
               | None \<Rightarrow>
                   (case store_error e 690 of
                      Some m \<Rightarrow> Raised m s
                    | None \<Rightarrow>
                        Replied (respond 200 (Json (JObj
                          [(''totalVendors'', JNum (int (length (vendors s)))),
                           (''approvedVendors'',
                              JNum (int (length (filter v_approved (vendors s))))),
                           (''trialingVendors'',
                              JNum (int (length (filter
                                (\<lambda>v. v_subscriptionStatus v = ''trialing'') (vendors s)))))])))
                          s))))"

subsection \<open>\<^verbatim>\<open>app.get('/vendor/invoices/:vendorUsername')\<close>\<close>

definition vendor_invoices :: "env \<Rightarrow> string \<Rightarrow> state \<Rightarrow> outcome" where
  "vendor_invoices e vendorUsername s =
     catch_500 ''Error fetching vendor invoices:'' ''Failed to fetch vendor invoices.''
       (case store_error e 707 of
          Some m \<Rightarrow> Raised m s
        | None \<Rightarrow>
            (case findOne (\<lambda>v. v_username v = vendorUsername) (vendors s) of
               None \<Rightarrow> Replied (respond 404 (message ''Vendor not found.'')) s
             | Some vendor \<Rightarrow>
                 (case store_error e 714 of
                    Some m \<Rightarrow> Raised m s
                  | None \<Rightarrow>
                      Replied (respond 200 (Json (JArr (map invoice_json
                        (filter (\<lambda>i. inv_customerId i \<in> set (v_customers vendor))
                           (invoices s)))))) s)))"

subsection \<open>\<^verbatim>\<open>app.get('/admin/activity-log')\<close>\<close>

text \<open>
  \<^verbatim>\<open>ActivityLog.find(query).sort({ timestamp: -1 })\<close>: the entries that match, newest
  first.
\<close>

definition log_matches :: "env \<Rightarrow> string option \<Rightarrow> string option \<Rightarrow> activity_log \<Rightarrow> bool" where
  "log_matches e search eventType l =
     ((falsy search \<or> regex_i e (shown search) (log_description l)) \<and>
      (falsy eventType \<or> log_eventType l = shown eventType))"

definition newest_first :: "activity_log list \<Rightarrow> activity_log list" where
  "newest_first ls = rev (sort_key log_timestamp ls)"

definition find_activity_logs ::
  "env \<Rightarrow> string option \<Rightarrow> string option \<Rightarrow> state \<Rightarrow> activity_log list" where
  "find_activity_logs e search eventType s =
     newest_first (filter (log_matches e search eventType) (activityLogs s))"

definition admin_activity_log ::
  "env \<Rightarrow> string option \<Rightarrow> string option \<Rightarrow> string option \<Rightarrow> state \<Rightarrow> outcome" where
  "admin_activity_log e token search eventType =
     authenticateToken e token (\<lambda>u s.
       catch_500 ''Error fetching activity logs:'' ''Failed to fetch activity logs.''
         (if u_role u \<noteq> ''admin''
          then Replied (respond 403 (message ''Access denied. Admins only.'')) s
          else (case store_error e 741 of
                  Some m \<Rightarrow> Raised m s
                | None \<Rightarrow>
                    Replied (respond 200 (Json (JArr (map activity_log_json
                      (find_activity_logs e search eventType s))))) s)))"

subsection \<open>\<^verbatim>\<open>app.post('/vendor/create-stripe-connect-account')\<close>\<close>

definition connect_account :: "env \<Rightarrow> string \<Rightarrow> vendor \<Rightarrow> state \<Rightarrow> reply" where
  "connect_account e vendorUsername vendor s =
     (let s1 = stripe_called (AccountsCreate vendorUsername) s in
      case accounts_create e vendorUsername of
        Inl m \<Rightarrow> Raised m s1
      | Inr accountId \<Rightarrow>
          (let s2 = stripe_called (AccountLinksCreate accountId) s1 in
           case accountLinks_create e accountId of
             Inl m \<Rightarrow> Raised m s2
           | Inr url \<Rightarrow>
               (case store_error e 783 of
                  Some m \<Rightarrow> Raised m s2
                | None \<Rightarrow>
                    (let vendor' = vendor\<lparr>v_stripeConnectAccountId := Some accountId\<rparr> in
                     Replied (respond 200 (Json (JObj
                       [(''url'', JStr url), (''vendor'', vendor_json vendor')])))
                       (save_vendor vendor' s2)))))"

definition vendor_create_stripe_connect_account ::
  "env \<Rightarrow> string option \<Rightarrow> string \<Rightarrow> state \<Rightarrow> outcome" where
  "vendor_create_stripe_connect_account e token vendorUsername =
     authenticateToken e token (\<lambda>u s.
       catch_500 ''Error creating Stripe Connect account link:''
         ''Failed to create Stripe Connect account link.''
         (case store_error e 758 of
            Some m \<Rightarrow> Raised m s
          | None \<Rightarrow>
              (case findOne (\<lambda>v. v_username v = vendorUsername) (vendors s) of
                 None \<Rightarrow> Replied (respond 404 (message ''Vendor not found.'')) s
               | Some vendor \<Rightarrow> connect_account e vendorUsername vendor s)))"

subsection \<open>\<^verbatim>\<open>app.get('/customer/invoices/:customerId')\<close>\<close>

definition customer_invoices :: "env \<Rightarrow> string option \<Rightarrow> string \<Rightarrow> state \<Rightarrow> outcome" where
  "customer_invoices e token customerId =
     authenticateToken e token (\<lambda>u s.
       catch_500 ''Error fetching customer invoices:'' ''Failed to fetch customer invoices.''
         (case store_error e 796 of
            Some m \<Rightarrow> Raised m s
          | None \<Rightarrow>
              Replied (respond 200 (Json (JArr (map invoice_json
                (filter (\<lambda>i. inv_customerId i = customerId) (invoices s)))))) s))"

subsection \<open>\<^verbatim>\<open>app.get('/vendor/get-current-user')\<close>\<close>

definition current_vendor_json :: "vendor \<Rightarrow> json" where
  "current_vendor_json vendor =
     JObj [(''username'', JStr (v_username vendor)),
           (''approved'', JBool (v_approved vendor)),
           (''role'', JStr ''vendor''),
           (''subscriptionStatus'', JStr (v_subscriptionStatus vendor)),
           (''trialEndsAt'', jdate (v_trialEndsAt vendor)),
           (''stripeConnectAccountId'', jopt (v_stripeConnectAccountId vendor))]"

definition vendor_get_current_user :: "env \<Rightarrow> string option \<Rightarrow> state \<Rightarrow> outcome" where
  "vendor_get_current_user e token =
     authenticateToken e token (\<lambda>u s.
       catch_500 ''Error fetching current vendor data:'' ''Failed to fetch current vendor data.''
         (case store_error e 808 of
            Some m \<Rightarrow> Raised m s
          | None \<Rightarrow>
              (case findOne (\<lambda>v. v_username v = u_username u) (vendors s) of
                 None \<Rightarrow> Replied (respond 404 (message ''Vendor not found.'')) s
               | Some vendor \<Rightarrow>
                   Replied (respond 200 (Json (JObj
                     [(''vendor'', current_vendor_json vendor)]))) s)))"

subsection \<open>\<^verbatim>\<open>app.post('/vendor/create-subscription-setup-intent')\<close>\<close>

definition vendor_create_subscription_setup_intent ::
  "env \<Rightarrow> string option \<Rightarrow> state \<Rightarrow> outcome" where
  "vendor_create_subscription_setup_intent e token =
     authenticateToken e token (\<lambda>u s.
       catch_500 ''Error creating subscription SetupIntent:''
         ''Failed to create subscription SetupIntent.''
         (case store_error e 825 of
            Some m \<Rightarrow> Raised m s
          | None \<Rightarrow>
              (case findOne (\<lambda>v. v_username v = u_username u) (vendors s) of
                 None \<Rightarrow> Replied (respond 404 (message ''Vendor not found.'')) s
               | Some vendor \<Rightarrow>
                   if v_stripeCustomerId vendor = []
                   then Replied (respond 400 (message
                          ''Stripe Customer ID not found for this vendor.'')) s
                   else (let s1 = stripe_called
                                    (SetupIntentsCreate (v_stripeCustomerId vendor)) s in
                         case setupIntents_create e (v_stripeCustomerId vendor) of
                           Inl m \<Rightarrow> Raised m s1
                         | Inr secret \<Rightarrow>
                             Replied (respond 200 (Json (JObj
                               [(''clientSecret'', JStr secret)]))) s1))))"

subsection \<open>\<^verbatim>\<open>app.get('/admin/vendor-details/:username')\<close>\<close>

definition vendor_details_json :: "vendor \<Rightarrow> invoice list \<Rightarrow> json" where
  "vendor_details_json vendor vendorInvoices =
     JObj [(''username'', JStr (v_username vendor)),
           (''approved'', JBool (v_approved vendor)),
           (''subscriptionStatus'', JStr (v_subscriptionStatus vendor)),
           (''trialEndsAt'', jdate (v_trialEndsAt vendor)),
           (''stripeCustomerId'', JStr (v_stripeCustomerId vendor)),
           (''stripeConnectAccountId'', jopt (v_stripeConnectAccountId vendor)),
           (''customers'', JArr (map (\<lambda>customerId.
              JObj [(''id'', JStr customerId),
                    (''name'', JStr (''Customer '' @ customerId)),
                    (''email'', JStr (''customer'' @ customerId @ ''@example.com''))])
              (v_customers vendor))),
           (''invoices'', JArr (map invoice_json vendorInvoices))]"

definition admin_vendor_details :: "env \<Rightarrow> string option \<Rightarrow> string \<Rightarrow> state \<Rightarrow> outcome" where
  "admin_vendor_details e token username =
     authenticateToken e token (\<lambda>u s.
       catch_500 ''Error fetching vendor details:'' ''Failed to fetch vendor details.''
         (if u_role u \<noteq> ''admin''
          then Replied (respond 403 (message ''Access denied. Admins only.'')) s
          else (case store_error e 855 of
                  Some m \<Rightarrow> Raised m s
                | None \<Rightarrow>
                    (case findOne (\<lambda>v. v_username v = username) (vendors s) of
                       None \<Rightarrow> Replied (respond 404 (message ''Vendor not found.'')) s
                     | Some vendor \<Rightarrow>
                         (case store_error e 866 of
                            Some m \<Rightarrow> Raised m s
                          | None \<Rightarrow>
                              Replied (respond 200 (Json (vendor_details_json vendor
                                (filter (\<lambda>i. inv_customerId i \<in> set (v_customers vendor))
                                   (invoices s))))) s)))))"

subsection \<open>\<^verbatim>\<open>app.get('/check-auth')\<close>\<close>

definition check_auth :: "env \<Rightarrow> string option \<Rightarrow> state \<Rightarrow> outcome" where
  "check_auth e token =
     authenticateToken e token (\<lambda>u s.
       catch_500 ''Error checking auth:'' ''Failed to check authentication status.''
         (if u_role u = ''admin''
          then Replied (respond 200 (Json (JObj
                 [(''user'', JObj [(''username'', JStr (u_username u)),
                                   (''role'', JStr (u_role u))])]))) s
          else if u_role u = ''vendor''
          then (case store_error e 894 of
                  Some m \<Rightarrow> Raised m s
                | None \<Rightarrow>
                    (case findOne (\<lambda>v. v_username v = u_username u) (vendors s) of
                       None \<Rightarrow> Replied (respond 404 (message ''Vendor not found.'')) s
                     | Some vendor \<Rightarrow>
                         Replied (respond 200 (Json (JObj
                           [(''user'', current_vendor_json vendor)]))) s))
          else Replied (respond 400 (message ''Invalid user role.'')) s))"

subsection \<open>\<^verbatim>\<open>app.post('/logout')\<close>\<close>

definition logout :: "env \<Rightarrow> state \<Rightarrow> outcome" where
  "logout e s =
     (Some \<lparr>status = 200, body = message ''Logged out successfully.'',
            cookie = Some (ClearToken (NODE_ENV e = Some ''production''))\<rparr>, s)"

subsection \<open>\<^verbatim>\<open>app.post('/customer/generate-invite-link')\<close>\<close>

definition customer_generate_invite_link :: "string option \<Rightarrow> state \<Rightarrow> outcome" where
  "customer_generate_invite_link customerId s =
     (if falsy customerId
      then (Some (respond 400 (message ''Customer ID is required.'')), s)
      else (Some (respond 200 (Json (JObj
              [(''inviteLink'',
                JStr (''http://localhost:5173/customer/dashboard/'' @ shown customerId))]))), s))"

subsection \<open>\<^verbatim>\<open>app.get('/vendor/payout-history')\<close>\<close>

definition vendor_payout_history :: "env \<Rightarrow> string option \<Rightarrow> state \<Rightarrow> outcome" where
  "vendor_payout_history e token =
     authenticateToken e token (\<lambda>u s.
       catch_500 ''Error fetching payout history:'' ''Failed to fetch payout history.''
         (case store_error e 927 of
            Some m \<Rightarrow> Raised m s
          | None \<Rightarrow>
              (case findOne (\<lambda>v. v_username v = u_username u) (vendors s) of
                 None \<Rightarrow> Replied (respond 404 (message ''Vendor not found.'')) s
               | Some vendor \<Rightarrow>
                   if falsy (v_stripeConnectAccountId vendor)
                   then Replied (respond 400 (message
                          ''Stripe Express account not connected for this vendor.'')) s
                   else (let account = shown (v_stripeConnectAccountId vendor);
                             s1 = stripe_called (PayoutsList account) s in
                         case payouts_list e account of
                           Inl m \<Rightarrow> Raised m s1
                         | Inr payouts \<Rightarrow> Replied (respond 200 (Json payouts)) s1))))"

subsection \<open>\<^verbatim>\<open>app.post('/vendor/cancel-subscription')\<close>\<close>

definition cancel_subscription :: "env \<Rightarrow> vendor \<Rightarrow> state \<Rightarrow> reply" where
  "cancel_subscription e vendor s =
     (let s1 = stripe_called (SubscriptionsList (v_stripeCustomerId vendor)) s in
      case subscriptions_list e (v_stripeCustomerId vendor) of
        Inl m \<Rightarrow> Raised m s1
      | Inr [] \<Rightarrow>
          Replied (respond 400 (message ''No active subscription found for this vendor.'')) s1
      | Inr (subscriptionId # rest) \<Rightarrow>
          (let s2 = stripe_called (SubscriptionsCancel subscriptionId) s1 in
           case subscriptions_cancel e subscriptionId of
             Inl m \<Rightarrow> Raised m s2
           | Inr canceledStatus \<Rightarrow>
               (case store_error e 977 of
                  Some m \<Rightarrow> Raised m s2
                | None \<Rightarrow>
                    (let vendor' = vendor\<lparr>v_subscriptionStatus := canceledStatus\<rparr> in
                     case ActivityLog_create e 980 ''subscription_canceled''
                            (''Vendor '' @ v_username vendor @
                             '' canceled subscription. Status: '' @ canceledStatus)
                            (v_oid vendor) (save_vendor vendor' s2) of
                       Thrown m s3 \<Rightarrow> Raised m s3
                     | Returned s3 \<Rightarrow>
                         Replied (respond 200 (Json (JObj
                           [(''message'', JStr ''Subscription canceled successfully.''),
                            (''vendor'', vendor_json vendor')]))) s3))))"

definition vendor_cancel_subscription :: "env \<Rightarrow> string option \<Rightarrow> state \<Rightarrow> outcome" where
  "vendor_cancel_subscription e token =
     authenticateToken e token (\<lambda>u s.
       catch_500 ''Error canceling subscription:'' ''Failed to cancel subscription.''
         (case store_error e 953 of
            Some m \<Rightarrow> Raised m s
          | None \<Rightarrow>
              (case findOne (\<lambda>v. v_username v = u_username u) (vendors s) of
                 None \<Rightarrow> Replied (respond 404 (message ''Vendor not found.'')) s
               | Some vendor \<Rightarrow> cancel_subscription e vendor s)))"

section \<open>The server: one request at a time\<close>

text \<open>
  Every route that \<^verbatim>\<open>index.js\<close> registers, with the parts of the request it reads: the
  token cookie first where the route sits behind \<^verbatim>\<open>authenticateToken\<close>.
\<close>

datatype request =
    GetRoot
  | Register "string option" "string option"
  | Login "json option" "json option"
  | AdminLogin "string option" "string option"
  | AdminVendorsPending "string option"
  | AdminVendorsApprove "string option" string
  | CreateCustomer "string option" "string option" "string option"
  | CreateSetupIntent string
  | VendorAddCustomer "string option" string string
  | VendorCustomers "string option" string
  | CreatePaymentIntent "string option" string int
  | CreateInvoice "string option" string int "string option"
  | VendorCreateSubscription "string option" string string
  | VendorRequestPayout "string option" string int
  | StripeWebhook webhook_request
  | AdminVendorsAll "string option" "string option" "string option" "string option"
  | AdminAnalytics "string option"
  | VendorInvoices string
  | AdminActivityLog "string option" "string option" "string option"
  | VendorCreateStripeConnectAccount "string option" string
  | CustomerInvoices "string option" string
  | VendorGetCurrentUser "string option"
  | VendorCreateSubscriptionSetupIntent "string option"
  | AdminVendorDetails "string option" string
  | CheckAuth "string option"
  | Logout
  | CustomerGenerateInviteLink "string option"
  | VendorPayoutHistory "string option"
  | VendorCancelSubscription "string option"

fun step :: "env \<Rightarrow> request \<Rightarrow> state \<Rightarrow> outcome" where
  "step e GetRoot s = get_root s"
| "step e (Register username password) s = register e username password s"
| "step e (Login username password) s = login e username password s"
| "step e (AdminLogin username password) s = admin_login e username password s"
| "step e (AdminVendorsPending token) s = admin_vendors_pending e token s"
| "step e (AdminVendorsApprove token username) s = admin_vendors_approve e token username s"
| "step e (CreateCustomer email name phone) s = create_customer e email name phone s"
| "step e (CreateSetupIntent customerId) s = create_setup_intent e customerId s"
| "step e (VendorAddCustomer token vendorUsername customerId) s =
     vendor_add_customer e token vendorUsername customerId s"
| "step e (VendorCustomers token username) s = vendor_customers e token username s"
| "step e (CreatePaymentIntent token customerId amount) s =
     create_payment_intent e token customerId amount s"
| "step e (CreateInvoice token customerId amount description) s =
     create_invoice e token customerId amount description s"
| "step e (VendorCreateSubscription token vendorUsername paymentMethodId) s =
     vendor_create_subscription e token vendorUsername paymentMethodId s"
| "step e (VendorRequestPayout token vendorUsername amount) s =
     vendor_request_payout e token vendorUsername amount s"
| "step e (StripeWebhook req) s = stripe_webhook e req s"
| "step e (AdminVendorsAll token search approved subscriptionStatus) s =
     admin_vendors_all e token search approved subscriptionStatus s"
| "step e (AdminAnalytics token) s = admin_analytics e token s"
| "step e (VendorInvoices vendorUsername) s = vendor_invoices e vendorUsername s"
| "step e (AdminActivityLog token search eventType) s =
     admin_activity_log e token search eventType s"
| "step e (VendorCreateStripeConnectAccount token vendorUsername) s =
     vendor_create_stripe_connect_account e token vendorUsername s"
| "step e (CustomerInvoices token customerId) s = customer_invoices e token customerId s"
| "step e (VendorGetCurrentUser token) s = vendor_get_current_user e token s"
| "step e (VendorCreateSubscriptionSetupIntent token) s =
     vendor_create_subscription_setup_intent e token s"
| "step e (AdminVendorDetails token username) s = admin_vendor_details e token username s"
| "step e (CheckAuth token) s = check_auth e token s"
| "step e Logout s = logout e s"
| "step e (CustomerGenerateInviteLink customerId) s = customer_generate_invite_link customerId s"
| "step e (VendorPayoutHistory token) s = vendor_payout_history e token s"
| "step e (VendorCancelSubscription token) s = vendor_cancel_subscription e token s"

section \<open>Observations on a state and notions of the specification\<close>

text \<open>
  The refund attempts made so far: the charges for which \<^verbatim>\<open>stripe.refunds.create\<close> was
  called, in call order.
\<close>

definition refund_charge :: "effect \<Rightarrow> string option" where
  "refund_charge x = (case x of Stripe (RefundsCreate c) \<Rightarrow> Some c | _ \<Rightarrow> None)"

definition refund_attempts :: "state \<Rightarrow> string list" where
  "refund_attempts s = List.map_filter refund_charge (outbound s)"

definition entries_of_type :: "string \<Rightarrow> state \<Rightarrow> activity_log list" where
  "entries_of_type ty s = filter (\<lambda>l. log_eventType l = ty) (activityLogs s)"

text \<open>
  The table of section 4.4 of the specification, one handler for each event type, to
  compare the switch with.
\<close>

definition handler_of :: "string \<Rightarrow> branch" where
  "handler_of t =
     (if t = ''charge.dispute.created'' then DisputeCreated
      else if t = ''customer.subscription.updated'' then SubscriptionUpdated
      else if t = ''invoice.payment_succeeded'' then InvoicePaymentSucceeded
      else if t = ''payout.succeeded'' then PayoutSucceeded
      else if t = ''payout.failed'' then PayoutFailed
      else if t = ''charge.refunded'' then ChargeRefunded
      else Unhandled)"

definition stripe_call_of :: "effect \<Rightarrow> stripe_call option" where
  "stripe_call_of x = (case x of Stripe c \<Rightarrow> Some c | _ \<Rightarrow> None)"

definition stripe_calls :: "state \<Rightarrow> stripe_call list" where
  "stripe_calls s = List.map_filter stripe_call_of (outbound s)"

text \<open>The state after a delivery to the webhook.\<close>

definition deliver :: "env \<Rightarrow> webhook_request \<Rightarrow> state \<Rightarrow> state" where
  "deliver e req s = snd (stripe_webhook e req s)"

text \<open>
  The credentials of a login request do not authenticate in a state, and the route finds
  this out: no vendor has the username, or bcrypt compares the password with the stored
  hash and returns false.
\<close>

definition credentials_fail :: "env \<Rightarrow> json \<Rightarrow> json \<Rightarrow> state \<Rightarrow> bool" where
  "credentials_fail e username password s =
     (case username_filter e username of
        Inl m \<Rightarrow> False
      | Inr matches \<Rightarrow>
          (case findOne (\<lambda>v. matches (v_username v)) (vendors s) of
             None \<Rightarrow> True
           | Some vendor \<Rightarrow> bcrypt_compare e password (v_password vendor) = Inr False))"

text \<open>
  The table of section 4.4 of the specification with the code of each handler: what
  the route is to run for an event of a type.
\<close>

definition handler_for :: "string \<Rightarrow> env \<Rightarrow> event \<Rightarrow> state \<Rightarrow> flow" where
  "handler_for t =
     (if t = ''charge.dispute.created'' then charge_dispute_created
      else if t = ''customer.subscription.updated'' then customer_subscription_updated
      else if t = ''invoice.payment_succeeded'' then invoice_payment_succeeded
      else if t = ''payout.succeeded'' then payout_succeeded
      else if t = ''payout.failed'' then payout_failed
      else if t = ''charge.refunded'' then charge_refunded
      else unhandled_event)"

text \<open>The server handling a sequence of requests, each with the answers of its collaborators.\<close>

fun run :: "(env \<times> request) list \<Rightarrow> state \<Rightarrow> state" where
  "run [] s = s"
| "run ((e, r) # rs) s = run rs (snd (step e r s))"

section \<open>Example inputs\<close>

text \<open>
  A store with one vendor and one invoice, events of every type about them, and
  collaborators that answer: \<open>demo_env t refund\<close> verifies the signature \<open>valid\<close> and
  then parses the event of type \<open>t\<close>; its refund call answers \<open>refund\<close>. Its
  \<open>bcrypt_compare\<close> throws on a password that is not a string, as bcryptjs does.
\<close>

definition demo_object :: event_object where
  "demo_object =
     \<lparr>obj_id = ''in_1'', obj_charge = ''ch_1'', obj_customer = ''cus_1'',
      obj_status = ''active'', obj_amount = 5000, obj_amount_refunded = 5000,
      obj_currency = ''usd'', obj_failure_code = None\<rparr>"

definition demo_event :: "string \<Rightarrow> event" where
  "demo_event t = \<lparr>ev_id = ''evt_1'', ev_type = t, ev_object = demo_object\<rparr>"

definition demo_customer :: "string \<Rightarrow> string option \<Rightarrow> stripe_customer" where
  "demo_customer c pm =
     \<lparr>cus_id = c, cus_name = Some ''Customer'', cus_email = Some ''customer@example.com'',
      cus_phone = None, cus_default_payment_method = pm\<rparr>"

definition demo_draft :: stripe_invoice where
  "demo_draft =
     \<lparr>si_id = ''in_2'', si_hosted_invoice_url = None, si_status = ''draft'',
      si_amount_due = 5000, si_currency = ''usd'', si_created = 1\<rparr>"

definition demo_finalized :: "string \<Rightarrow> stripe_invoice" where
  "demo_finalized i =
     \<lparr>si_id = i, si_hosted_invoice_url = Some ''https://invoice.stripe.com/i/in_2'',
      si_status = ''open'', si_amount_due = 5000, si_currency = ''usd'', si_created = 1\<rparr>"

definition demo_env :: "string \<Rightarrow> string option \<Rightarrow> env" where
  "demo_env t refund =
     \<lparr>STRIPE_WEBHOOK_SECRET = Some ''whsec_1'',
      constructEvent = (\<lambda>b sg k.
        if sg = Some ''valid'' then Inr (demo_event t)
        else Inl ''No signatures found matching the expected signature for payload''),
      refunds_create = (\<lambda>c. refund),
      store_error = Map.empty,
      now = 1000,
      new_oid = (\<lambda>n. ''65f000000000000000000009''),
      fmt_num = (\<lambda>n. ''50''),
      fmt_div100 = (\<lambda>n. ''50''),
      toLocaleDateString = (\<lambda>t. ''1/1/2025''),
      regex_i = (\<lambda>p x. True),
      NODE_ENV = Some ''production'',
      bcrypt_hash = (\<lambda>p. ''hash of '' @ p),
      bcrypt_compare = (\<lambda>p h.
        case p of
          JStr x \<Rightarrow> Inr (h = ''hash of '' @ x)
        | v \<Rightarrow> Inl ''Illegal arguments: number, string''),
      cast_filter = (\<lambda>v. Inl ''Cast to string failed''),
      template_text = (\<lambda>v. ''123''),
      jwt_sign = (\<lambda>n r. ''token '' @ r @ '' '' @ n),
      jwt_verify = (\<lambda>k.
        if k = ''token admin admin'' then Inr \<lparr>u_username = ''admin'', u_role = ''admin''\<rparr>
        else if k = ''token vendor v1'' then Inr \<lparr>u_username = ''v1'', u_role = ''vendor''\<rparr>
        else Inl ''jwt malformed''),
      customers_create = (\<lambda>m n. Inr ''cus_2''),
      customers_retrieve = (\<lambda>c. Inr (demo_customer c (Some ''pm_1''))),
      customers_update = (\<lambda>c p. None),
      setupIntents_create = (\<lambda>c. Inr ''seti_1_secret''),
      invoices_list = (\<lambda>c. Inr []),
      paymentMethods_list = (\<lambda>c. Inr [''pm_1'']),
      paymentMethods_attach = (\<lambda>p c. None),
      paymentIntents_create = (\<lambda>c n p. Inr ''pi_1''),
      invoiceItems_create = (\<lambda>c n d. None),
      invoices_create = (\<lambda>c m. Inr demo_draft),
      invoices_finalize = (\<lambda>i. Inr (demo_finalized i)),
      subscriptions_create = (\<lambda>c. Inr (''sub_1'', ''active'')),
      subscriptions_list = (\<lambda>c. Inr [''sub_1'']),
      subscriptions_cancel = (\<lambda>i. Inr ''canceled''),
      payouts_create = (\<lambda>n a. Inr ''po_1''),
      payouts_list = (\<lambda>a. Inr (JArr [])),
      accounts_create = (\<lambda>m. Inr ''acct_1''),
      accountLinks_create = (\<lambda>a. Inr ''https://connect.stripe.com/setup/e/acct_1'')\<rparr>"

definition signed_request :: webhook_request where
  "signed_request = \<lparr>wh_body = ''payload'', wh_signature = Some ''valid''\<rparr>"

definition forged_request :: webhook_request where
  "forged_request = \<lparr>wh_body = ''payload'', wh_signature = Some ''forged''\<rparr>"

definition demo_vendor :: vendor where
  "demo_vendor =
     \<lparr>v_oid = ''65f000000000000000000001'', v_username = ''v1'', v_password = ''hash of secret'',
      v_approved = True, v_customers = [''cus_9''], v_stripeCustomerId = ''cus_1'',
      v_subscriptionStatus = ''trialing'', v_trialEndsAt = Some 2000,
      v_stripeConnectAccountId = None\<rparr>"

definition demo_invoice :: invoice where
  "demo_invoice =
     \<lparr>inv_oid = ''65f000000000000000000002'', inv_id = ''in_1'', inv_customerId = ''cus_9'',
      inv_amount = 50, inv_description = Some ''Consulting'',
      inv_invoiceUrl = Some ''https://invoice.stripe.com/i/in_1'',
      inv_status = ''open'', inv_createdAt = 500\<rparr>"

definition demo_state :: state where
  "demo_state =
     \<lparr>vendors = [demo_vendor], invoices = [demo_invoice], activityLogs = [], outbound = []\<rparr>"

definition empty_state :: state where
  "empty_state = \<lparr>vendors = [], invoices = [], activityLogs = [], outbound = []\<rparr>"

text \<open>
  The environment of the examples with a customer that has no default payment method.
\<close>

definition demo_env_no_card :: env where
  "demo_env_no_card = (demo_env [] None)\<lparr>customers_retrieve := (\<lambda>c. Inr (demo_customer c None))\<rparr>"

definition demo_ledger :: "activity_log list" where
  "demo_ledger =
     [\<lparr>log_eventType = ''vendor_registered'', log_description = ''New vendor registered: v1'',
       log_timestamp = 100, log_relatedId = Some ''65f000000000000000000001''\<rparr>,
      \<lparr>log_eventType = ''invoice_paid'', log_description = ''Invoice in_1 paid successfully.'',
       log_timestamp = 300, log_relatedId = Some ''65f000000000000000000002''\<rparr>,
      \<lparr>log_eventType = ''vendor_approved'', log_description = ''Vendor approved: v1'',
       log_timestamp = 200, log_relatedId = Some ''65f000000000000000000001''\<rparr>]"

text \<open>The environment of the examples with a store that throws at one line.\<close>

definition demo_env_store_down :: "string \<Rightarrow> string option \<Rightarrow> nat \<Rightarrow> env" where
  "demo_env_store_down t refund site =
     (demo_env t refund)\<lparr>store_error := (\<lambda>n. if n = site then Some ''connection lost'' else None)\<rparr>"

section \<open>The route runs one branch\<close>

lemma dispatch_labelled:
  "dispatch ''charge.dispute.created'' = [DisputeCreated]"
  "dispatch ''customer.subscription.updated'' = [SubscriptionUpdated]"
  "dispatch ''invoice.payment_succeeded'' = [InvoicePaymentSucceeded]"
  "dispatch ''payout.succeeded'' = [PayoutSucceeded]"
  "dispatch ''payout.failed'' = [PayoutFailed]"
  "dispatch ''charge.refunded'' = [ChargeRefunded]"
  by (simp_all add: dispatch_def selected_def webhook_switch_def)

lemma dispatch_default:
  "t \<notin> {''charge.dispute.created'', ''customer.subscription.updated'',
         ''invoice.payment_succeeded'', ''payout.succeeded'', ''payout.failed'',
         ''charge.refunded''} \<Longrightarrow> dispatch t = [Unhandled]"
  by (auto simp: dispatch_def selected_def webhook_switch_def)

lemma dispatch_handler_of: "dispatch t = [handler_of t]"
  using dispatch_default [of t]
  by (auto simp: handler_of_def dispatch_labelled)

lemma run_branches_dispatch: "run_branches (dispatch t) e ev s = handler_for t e ev s"
  by (simp add: dispatch_handler_of handler_of_def handler_for_def split: flow.splits)

lemma webhook_runs_handler:
  "stripe_webhook e req s =
     (case constructEvent e (wh_body req) (wh_signature req) (STRIPE_WEBHOOK_SECRET e) of
        Inl m \<Rightarrow>
          (Some (respond 400 (Send (''Webhook Error: '' @ m))),
           console_error (''Webhook Error: '' @ m) s)
      | Inr ev \<Rightarrow>
          (case handler_for (ev_type ev) e ev s of
             Returned s' \<Rightarrow> (Some (respond 200 received), s')
           | Thrown m s' \<Rightarrow> (None, s')))"
  by (simp add: stripe_webhook_def run_branches_dispatch split: sum.splits)

lemma branch_reachable: "\<exists>t. dispatch t = [b] \<and> (\<forall>e ev s. run_branches (dispatch t) e ev s = run_branch b e ev s)"
proof -
  have "\<exists>t. dispatch t = [b]"
  proof (cases b)
    case Unhandled
    have "dispatch [] = [Unhandled]"
      by (rule dispatch_default) simp
    with Unhandled show ?thesis by blast
  qed (use dispatch_labelled in blast)+
  then obtain t where "dispatch t = [b]" by blast
  then have "dispatch t = [b] \<and> (\<forall>e ev s. run_branches (dispatch t) e ev s = run_branch b e ev s)"
    by (simp split: flow.splits)
  then show ?thesis by blast
qed

text \<open>
  C3. The webhook runs exactly one branch for a verified event: the switch selects the
  one branch of the event's type, the statements the route runs for an event of type
  \<open>t\<close> are the code of the handler that the table gives for \<open>t\<close> and nothing of another
  branch, and the route does what this one handler does and then acknowledges. No
  branch is unreachable: every branch of the switch is, for some event type, the one
  branch that the route runs.
\<close>

theorem webhook_runs_exactly_one_branch:
  "dispatch t = [handler_of t] \<and>
   run_branches (dispatch t) e ev s = handler_for t e ev s \<and>
   (\<exists>t'. dispatch t' = [b] \<and>
      (\<forall>e ev s. run_branches (dispatch t') e ev s = run_branch b e ev s)) \<and>
   stripe_webhook e req s =
     (case constructEvent e (wh_body req) (wh_signature req) (STRIPE_WEBHOOK_SECRET e) of
        Inl m \<Rightarrow>
          (Some (respond 400 (Send (''Webhook Error: '' @ m))),
           console_error (''Webhook Error: '' @ m) s)
      | Inr ev \<Rightarrow>
          (case handler_for (ev_type ev) e ev s of
             Returned s' \<Rightarrow> (Some (respond 200 received), s')
           | Thrown m s' \<Rightarrow> (None, s')))"
  using dispatch_handler_of [of t] run_branches_dispatch [of t e ev s]
    branch_reachable [of b] webhook_runs_handler [of e req s]
  by blast

section \<open>The webhook\<close>

lemma map_filter_app: "List.map_filter f (xs @ ys) = List.map_filter f xs @ List.map_filter f ys"
  by (simp add: List.map_filter_def)

lemma refund_attempts_simps [simp]:
  "refund_attempts (console_log m s) = refund_attempts s"
  "refund_attempts (console_error m s) = refund_attempts s"
  "refund_attempts (stripe_called (RefundsCreate c) s) = refund_attempts s @ [c]"
  "refund_attempts (s\<lparr>activityLogs := ls\<rparr>) = refund_attempts s"
  "refund_attempts (s\<lparr>vendors := vs\<rparr>) = refund_attempts s"
  "refund_attempts (s\<lparr>invoices := is\<rparr>) = refund_attempts s"
  by (simp_all add: refund_attempts_def console_log_def console_error_def stripe_called_def
        map_filter_app refund_charge_def List.map_filter_def)

lemma store_simps [simp]:
  "activityLogs (console_log m s) = activityLogs s"
  "activityLogs (console_error m s) = activityLogs s"
  "activityLogs (stripe_called c s) = activityLogs s"
  "vendors (console_log m s) = vendors s"
  "vendors (console_error m s) = vendors s"
  "vendors (stripe_called c s) = vendors s"
  "invoices (console_log m s) = invoices s"
  "invoices (console_error m s) = invoices s"
  "invoices (stripe_called c s) = invoices s"
  by (simp_all add: console_log_def console_error_def stripe_called_def)

lemma webhook_verified:
  assumes "constructEvent e (wh_body req) (wh_signature req) (STRIPE_WEBHOOK_SECRET e) = Inr ev"
  shows "stripe_webhook e req s =
     (case run_branches [handler_of (ev_type ev)] e ev s of
        Returned s' \<Rightarrow> (Some (respond 200 received), s')
      | Thrown m s' \<Rightarrow> (None, s'))"
  using assms dispatch_handler_of [of "ev_type ev"]
  by (simp add: stripe_webhook_def)

lemma dispute_flow:
  assumes "store_error e 550 = None" "store_error e 561 = None"
  shows "charge_dispute_created e ev s = Returned s' \<Longrightarrow> 
     refund_attempts s' = refund_attempts s @ [obj_charge (ev_object ev)] \<and>
     vendors s' = vendors s \<and> invoices s' = invoices s \<and>
     activityLogs s' = activityLogs s @
       [case refunds_create e (obj_charge (ev_object ev)) of
          None \<Rightarrow>
            \<lparr>log_eventType = ''fraud_warning_refund'',
             log_description = ''Fraud warning: Dispute created for charge '' @
               obj_charge (ev_object ev) @ ''. Auto-refund initiated.'',
             log_timestamp = now e, log_relatedId = Some (obj_charge (ev_object ev))\<rparr>
        | Some m \<Rightarrow>
            \<lparr>log_eventType = ''fraud_warning_refund_failed'',
             log_description = ''Fraud warning: Dispute created for charge '' @
               obj_charge (ev_object ev) @ ''. Auto-refund FAILED. Error: '' @ m,
             log_timestamp = now e, log_relatedId = Some (obj_charge (ev_object ev))\<rparr>]"
  and "\<exists>s'. charge_dispute_created e ev s = Returned s'"
  using assms
  by (auto simp: charge_dispute_created_def dispute_try_def dispute_catch_def
        ActivityLog_create_def Let_def split: option.splits)


lemma findOne_None:
  "findOne p xs = None \<Longrightarrow> findOneAndUpdate p f xs = (None, xs)"
  by (induction xs) (auto split: if_splits)

lemma findOne_Some:
  "findOne p xs = Some v \<Longrightarrow>
     \<exists>pre post. xs = pre @ v # post \<and> (\<forall>u\<in>set pre. \<not> p u) \<and> p v \<and>
       findOneAndUpdate p f xs = (Some (f v), pre @ f v # post)"
proof (induction xs)
  case Nil
  then show ?case by simp
next
  case (Cons x xs)
  show ?case
  proof (cases "p x")
    case True
    with Cons.prems have "x = v" by simp
    with True show ?thesis by (intro exI [of _ "[]"] exI [of _ xs]) simp
  next
    case False
    with Cons.prems have "findOne p xs = Some v" by simp
    from Cons.IH [OF this] obtain pre post where
      "xs = pre @ v # post" "\<forall>u\<in>set pre. \<not> p u" "p v"
      "findOneAndUpdate p f xs = (Some (f v), pre @ f v # post)" by blast
    with False show ?thesis
      by (intro exI [of _ "x # pre"] exI [of _ post]) simp
  qed
qed

lemma findOne_member:
  "v \<in> set xs \<Longrightarrow> p v \<Longrightarrow> \<exists>u. findOne p xs = Some u \<and> p u \<and> u \<in> set xs"
  by (induction xs) auto

lemma subscription_found:
  assumes "store_error e 574 = None \<and> store_error e 582 = None"
    and "findOne (\<lambda>v. v_stripeCustomerId v = obj_customer (ev_object ev)) (vendors s) = Some v"
  shows "\<exists>s'. customer_subscription_updated e ev s = Returned s' \<and>
     (\<exists>pre post. vendors s = pre @ v # post \<and>
        (\<forall>u\<in>set pre. v_stripeCustomerId u \<noteq> obj_customer (ev_object ev)) \<and>
        vendors s' = pre @ v\<lparr>v_subscriptionStatus := obj_status (ev_object ev)\<rparr> # post) \<and>
     invoices s' = invoices s \<and> refund_attempts s' = refund_attempts s \<and>
     activityLogs s' = activityLogs s @
       [\<lparr>log_eventType = ''subscription_status_updated'',
         log_description = ''Vendor '' @ v_username v @ '' subscription status updated to '' @
           obj_status (ev_object ev) @ ''.'',
         log_timestamp = now e, log_relatedId = Some (v_oid v)\<rparr>]"
proof -
  from findOne_Some [OF assms(2), of "\<lambda>v. v\<lparr>v_subscriptionStatus := obj_status (ev_object ev)\<rparr>"]
  obtain pre post where *: "vendors s = pre @ v # post"
    "\<forall>u\<in>set pre. v_stripeCustomerId u \<noteq> obj_customer (ev_object ev)"
    "findOneAndUpdate (\<lambda>v. v_stripeCustomerId v = obj_customer (ev_object ev))
       (\<lambda>v. v\<lparr>v_subscriptionStatus := obj_status (ev_object ev)\<rparr>) (vendors s) =
     (Some (v\<lparr>v_subscriptionStatus := obj_status (ev_object ev)\<rparr>),
      pre @ v\<lparr>v_subscriptionStatus := obj_status (ev_object ev)\<rparr> # post)"
    by blast
  show ?thesis
    apply (simp add: customer_subscription_updated_def subscription_try_def
        ActivityLog_create_def Let_def *(3) assms(1))
    using *(1,2) by blast
qed

lemma invoice_found:
  assumes "store_error e 598 = None \<and> store_error e 606 = None"
    and "findOne (\<lambda>i. inv_id i = obj_id (ev_object ev)) (invoices s) = Some i"
  shows "\<exists>s'. invoice_payment_succeeded e ev s = Returned s' \<and>
     (\<exists>pre post. invoices s = pre @ i # post \<and>
        (\<forall>u\<in>set pre. inv_id u \<noteq> obj_id (ev_object ev)) \<and>
        invoices s' = pre @ i\<lparr>inv_status := ''paid''\<rparr> # post) \<and>
     vendors s' = vendors s \<and> refund_attempts s' = refund_attempts s \<and>
     activityLogs s' = activityLogs s @
       [\<lparr>log_eventType = ''invoice_paid'',
         log_description = ''Invoice '' @ inv_id i @ '' paid successfully.'',
         log_timestamp = now e, log_relatedId = Some (inv_oid i)\<rparr>]"
proof -
  from findOne_Some [OF assms(2), of "\<lambda>i. i\<lparr>inv_status := ''paid''\<rparr>"]
  obtain pre post where *: "invoices s = pre @ i # post"
    "\<forall>u\<in>set pre. inv_id u \<noteq> obj_id (ev_object ev)"
    "findOneAndUpdate (\<lambda>i. inv_id i = obj_id (ev_object ev))
       (\<lambda>i. i\<lparr>inv_status := ''paid''\<rparr>) (invoices s) =
     (Some (i\<lparr>inv_status := ''paid''\<rparr>), pre @ i\<lparr>inv_status := ''paid''\<rparr> # post)"
    by blast
  show ?thesis
    apply (simp add: invoice_payment_succeeded_def invoice_try_def
        ActivityLog_create_def Let_def *(3) assms(1))
    using *(1,2) by blast
qed

lemmas demo_defs = demo_object_def demo_event_def demo_env_def signed_request_def
  forged_request_def demo_vendor_def demo_invoice_def demo_state_def empty_state_def
  demo_customer_def demo_draft_def demo_finalized_def

lemma stripe_calls_simps [simp]:
  "stripe_calls (console_log m s) = stripe_calls s"
  "stripe_calls (console_error m s) = stripe_calls s"
  "stripe_calls (stripe_called c s) = stripe_calls s @ [c]"
  "stripe_calls (s\<lparr>activityLogs := ls\<rparr>) = stripe_calls s"
  "stripe_calls (s\<lparr>vendors := vs\<rparr>) = stripe_calls s"
  "stripe_calls (s\<lparr>invoices := is\<rparr>) = stripe_calls s"
  by (simp_all add: stripe_calls_def console_log_def console_error_def stripe_called_def
        map_filter_app stripe_call_of_def List.map_filter_def)

text \<open>
  A verified \<^verbatim>\<open>charge.dispute.created\<close> event, when the ledger writes of the branch
  (lines 550 and 561) return: the route answers 200 with the acknowledgment whether the
  refund call returns or throws; exactly one refund attempt is added, for the disputed
  charge; and exactly one ledger entry is appended, \<^verbatim>\<open>fraud_warning_refund\<close> when the
  refund call returned and \<^verbatim>\<open>fraud_warning_refund_failed\<close>, with the message of the
  error, when it threw.
\<close>

lemma dispute_one_refund_one_entry:
  assumes "constructEvent e (wh_body req) (wh_signature req) (STRIPE_WEBHOOK_SECRET e) = Inr ev"
    and "ev_type ev = ''charge.dispute.created''"
    and "store_error e 550 = None" "store_error e 561 = None"
  shows "fst (stripe_webhook e req s) = Some (respond 200 received) \<and>
     refund_attempts (snd (stripe_webhook e req s)) =
       refund_attempts s @ [obj_charge (ev_object ev)] \<and>
     activityLogs (snd (stripe_webhook e req s)) = activityLogs s @
       [case refunds_create e (obj_charge (ev_object ev)) of
          None \<Rightarrow>
            \<lparr>log_eventType = ''fraud_warning_refund'',
             log_description = ''Fraud warning: Dispute created for charge '' @
               obj_charge (ev_object ev) @ ''. Auto-refund initiated.'',
             log_timestamp = now e, log_relatedId = Some (obj_charge (ev_object ev))\<rparr>
        | Some m \<Rightarrow>
            \<lparr>log_eventType = ''fraud_warning_refund_failed'',
             log_description = ''Fraud warning: Dispute created for charge '' @
               obj_charge (ev_object ev) @ ''. Auto-refund FAILED. Error: '' @ m,
             log_timestamp = now e, log_relatedId = Some (obj_charge (ev_object ev))\<rparr>]"
proof -
  from dispute_flow(2) [OF assms(3,4)] obtain s' where
    r: "charge_dispute_created e ev s = Returned s'" by blast
  have w: "stripe_webhook e req s = (Some (respond 200 received), s')"
    using r assms(2) by (simp add: webhook_verified [OF assms(1)] handler_of_def)
  show ?thesis
    using dispute_flow(1) [OF assms(3,4) r] by (simp add: w)
qed

lemma dispute_one_refund_one_entry_example:
  "fst (stripe_webhook (demo_env ''charge.dispute.created'' None) signed_request demo_state) =
     Some (respond 200 received) \<and>
   refund_attempts
     (snd (stripe_webhook (demo_env ''charge.dispute.created'' None) signed_request demo_state)) =
     [''ch_1''] \<and>
   map log_eventType (activityLogs
     (snd (stripe_webhook (demo_env ''charge.dispute.created'' None) signed_request demo_state))) =
     [''fraud_warning_refund''] \<and>
   fst (stripe_webhook (demo_env ''charge.dispute.created'' (Some ''Charge ch_1 has already been refunded.''))
     signed_request demo_state) = Some (respond 200 received) \<and>
   refund_attempts
     (snd (stripe_webhook (demo_env ''charge.dispute.created'' (Some ''Charge ch_1 has already been refunded.''))
        signed_request demo_state)) = [''ch_1''] \<and>
   map log_eventType (activityLogs
     (snd (stripe_webhook (demo_env ''charge.dispute.created'' (Some ''Charge ch_1 has already been refunded.''))
        signed_request demo_state))) = [''fraud_warning_refund_failed'']"
proof -
  let ?ev = "demo_event ''charge.dispute.created''"
  have v: "constructEvent (demo_env ''charge.dispute.created'' r) (wh_body signed_request)
      (wh_signature signed_request) (STRIPE_WEBHOOK_SECRET (demo_env ''charge.dispute.created'' r)) =
      Inr ?ev" for r
    by (simp add: demo_defs)
  have t: "ev_type ?ev = ''charge.dispute.created''"
    by (simp add: demo_defs)
  have u: "store_error (demo_env ''charge.dispute.created'' r) n = None" for r n
    by (simp add: demo_defs)
  have a: "refund_attempts demo_state = []" "activityLogs demo_state = []"
    "obj_charge (ev_object ?ev) = ''ch_1''"
    "refunds_create (demo_env ''charge.dispute.created'' r) c = r" for r c
    by (simp_all add: demo_defs refund_attempts_def List.map_filter_def)
  show ?thesis
    using dispute_one_refund_one_entry [OF v t u u, of None demo_state]
      dispute_one_refund_one_entry [OF v t u u,
        of "Some ''Charge ch_1 has already been refunded.''" demo_state]
    by (simp add: a)
qed


text \<open>
  C4. A verified \<^verbatim>\<open>customer.subscription.updated\<close> event whose customer is the
  \<^verbatim>\<open>stripeCustomerId\<close> of a vendor, the store answering: the vendor that the lookup
  finds gets the status of the event as its \<^verbatim>\<open>subscriptionStatus\<close>, the other vendors
  stay as they are, and one \<^verbatim>\<open>subscription_status_updated\<close> entry is appended to the
  ledger, its \<^verbatim>\<open>relatedId\<close> the vendor's \<^verbatim>\<open>_id\<close>.
\<close>

theorem subscription_update_reconciled:
  assumes "constructEvent e (wh_body req) (wh_signature req) (STRIPE_WEBHOOK_SECRET e) = Inr ev"
    and "ev_type ev = ''customer.subscription.updated''"
    and "store_error e 574 = None \<and> store_error e 582 = None"
    and "findOne (\<lambda>v. v_stripeCustomerId v = obj_customer (ev_object ev)) (vendors s) = Some v"
  shows "fst (stripe_webhook e req s) = Some (respond 200 received) \<and>
     (\<exists>pre post. vendors s = pre @ v # post \<and>
        (\<forall>u\<in>set pre. v_stripeCustomerId u \<noteq> obj_customer (ev_object ev)) \<and>
        vendors (snd (stripe_webhook e req s)) =
          pre @ v\<lparr>v_subscriptionStatus := obj_status (ev_object ev)\<rparr> # post) \<and>
     activityLogs (snd (stripe_webhook e req s)) = activityLogs s @
       [\<lparr>log_eventType = ''subscription_status_updated'',
         log_description = ''Vendor '' @ v_username v @ '' subscription status updated to '' @
           obj_status (ev_object ev) @ ''.'',
         log_timestamp = now e, log_relatedId = Some (v_oid v)\<rparr>]"
proof -
  from subscription_found [OF assms(3,4)] obtain s' where
    r: "customer_subscription_updated e ev s = Returned s'"
    and p: "\<exists>pre post. vendors s = pre @ v # post \<and>
        (\<forall>u\<in>set pre. v_stripeCustomerId u \<noteq> obj_customer (ev_object ev)) \<and>
        vendors s' = pre @ v\<lparr>v_subscriptionStatus := obj_status (ev_object ev)\<rparr> # post"
    and l: "activityLogs s' = activityLogs s @
       [\<lparr>log_eventType = ''subscription_status_updated'',
         log_description = ''Vendor '' @ v_username v @ '' subscription status updated to '' @
           obj_status (ev_object ev) @ ''.'',
         log_timestamp = now e, log_relatedId = Some (v_oid v)\<rparr>]"
    by blast
  have w: "stripe_webhook e req s = (Some (respond 200 received), s')"
    using r assms(2) by (simp add: webhook_verified [OF assms(1)] handler_of_def)
  show ?thesis
    using p l by (simp add: w)
qed

theorem subscription_update_reconciled_witness:
  "fst (stripe_webhook (demo_env ''customer.subscription.updated'' None) signed_request demo_state) =
     Some (respond 200 received) \<and>
   map v_subscriptionStatus (vendors
     (snd (stripe_webhook (demo_env ''customer.subscription.updated'' None) signed_request demo_state))) =
     [''active''] \<and>
   activityLogs
     (snd (stripe_webhook (demo_env ''customer.subscription.updated'' None) signed_request demo_state)) =
     [\<lparr>log_eventType = ''subscription_status_updated'',
       log_description = ''Vendor v1 subscription status updated to active.'',
       log_timestamp = 1000, log_relatedId = Some ''65f000000000000000000001''\<rparr>]"
proof -
  let ?e = "demo_env ''customer.subscription.updated'' None"
  let ?ev = "demo_event ''customer.subscription.updated''"
  have v: "constructEvent ?e (wh_body signed_request) (wh_signature signed_request)
      (STRIPE_WEBHOOK_SECRET ?e) = Inr ?ev"
    by (simp add: demo_defs)
  have t: "ev_type ?ev = ''customer.subscription.updated''"
    by (simp add: demo_defs)
  have u: "store_error ?e 574 = None \<and> store_error ?e 582 = None"
    by (simp add: demo_defs)
  have f: "findOne (\<lambda>v. v_stripeCustomerId v = obj_customer (ev_object ?ev)) (vendors demo_state) =
      Some demo_vendor"
    by (simp add: demo_defs)
  have a: "vendors demo_state = [demo_vendor]" "activityLogs demo_state = []"
    "obj_status (ev_object ?ev) = ''active''" "now ?e = 1000" "v_username demo_vendor = ''v1''"
    "v_oid demo_vendor = ''65f000000000000000000001''"
    by (simp_all add: demo_defs)
  show ?thesis
    using subscription_update_reconciled [OF v t u f]
    by (auto simp: a Cons_eq_append_conv)
qed

text \<open>
  C5. A verified \<^verbatim>\<open>invoice.payment_succeeded\<close> event whose invoice id is that of a
  stored invoice, the store answering: that invoice gets status \<^verbatim>\<open>paid\<close>, the other
  invoices stay as they are, and one \<^verbatim>\<open>invoice_paid\<close> entry is appended to the
  ledger, its \<^verbatim>\<open>relatedId\<close> the \<^verbatim>\<open>_id\<close> of the local document and not the processor's
  invoice id.
\<close>

theorem invoice_payment_reconciled:
  assumes "constructEvent e (wh_body req) (wh_signature req) (STRIPE_WEBHOOK_SECRET e) = Inr ev"
    and "ev_type ev = ''invoice.payment_succeeded''"
    and "store_error e 598 = None \<and> store_error e 606 = None"
    and "findOne (\<lambda>i. inv_id i = obj_id (ev_object ev)) (invoices s) = Some i"
  shows "fst (stripe_webhook e req s) = Some (respond 200 received) \<and>
     (\<exists>pre post. invoices s = pre @ i # post \<and>
        (\<forall>u\<in>set pre. inv_id u \<noteq> obj_id (ev_object ev)) \<and>
        invoices (snd (stripe_webhook e req s)) = pre @ i\<lparr>inv_status := ''paid''\<rparr> # post) \<and>
     activityLogs (snd (stripe_webhook e req s)) = activityLogs s @
       [\<lparr>log_eventType = ''invoice_paid'',
         log_description = ''Invoice '' @ inv_id i @ '' paid successfully.'',
         log_timestamp = now e, log_relatedId = Some (inv_oid i)\<rparr>]"
proof -
  from invoice_found [OF assms(3,4)] obtain s' where
    r: "invoice_payment_succeeded e ev s = Returned s'"
    and p: "\<exists>pre post. invoices s = pre @ i # post \<and>
        (\<forall>u\<in>set pre. inv_id u \<noteq> obj_id (ev_object ev)) \<and>
        invoices s' = pre @ i\<lparr>inv_status := ''paid''\<rparr> # post"
    and l: "activityLogs s' = activityLogs s @
       [\<lparr>log_eventType = ''invoice_paid'',
         log_description = ''Invoice '' @ inv_id i @ '' paid successfully.'',
         log_timestamp = now e, log_relatedId = Some (inv_oid i)\<rparr>]"
    by blast
  have w: "stripe_webhook e req s = (Some (respond 200 received), s')"
    using r assms(2) by (simp add: webhook_verified [OF assms(1)] handler_of_def)
  show ?thesis
    using p l by (simp add: w)
qed

theorem invoice_payment_reconciled_witness:
  "fst (stripe_webhook (demo_env ''invoice.payment_succeeded'' None) signed_request demo_state) =
     Some (respond 200 received) \<and>
   map inv_status (invoices
     (snd (stripe_webhook (demo_env ''invoice.payment_succeeded'' None) signed_request demo_state))) =
     [''paid''] \<and>
   activityLogs
     (snd (stripe_webhook (demo_env ''invoice.payment_succeeded'' None) signed_request demo_state)) =
     [\<lparr>log_eventType = ''invoice_paid'',
       log_description = ''Invoice in_1 paid successfully.'',
       log_timestamp = 1000, log_relatedId = Some ''65f000000000000000000002''\<rparr>] \<and>
   inv_id demo_invoice = ''in_1''"
proof -
  let ?e = "demo_env ''invoice.payment_succeeded'' None"
  let ?ev = "demo_event ''invoice.payment_succeeded''"
  have v: "constructEvent ?e (wh_body signed_request) (wh_signature signed_request)
      (STRIPE_WEBHOOK_SECRET ?e) = Inr ?ev"
    by (simp add: demo_defs)
  have t: "ev_type ?ev = ''invoice.payment_succeeded''"
    by (simp add: demo_defs)
  have u: "store_error ?e 598 = None \<and> store_error ?e 606 = None"
    by (simp add: demo_defs)
  have f: "findOne (\<lambda>i. inv_id i = obj_id (ev_object ?ev)) (invoices demo_state) =
      Some demo_invoice"
    by (simp add: demo_defs)
  have a: "invoices demo_state = [demo_invoice]" "activityLogs demo_state = []"
    "now ?e = 1000" "inv_id demo_invoice = ''in_1''"
    "inv_oid demo_invoice = ''65f000000000000000000002''"
    by (simp_all add: demo_defs)
  show ?thesis
    using invoice_payment_reconciled [OF v t u f]
    by (auto simp: a Cons_eq_append_conv)
qed

lemma webhook_unverified:
  assumes "constructEvent e (wh_body req) (wh_signature req) (STRIPE_WEBHOOK_SECRET e) = Inl m"
  shows "stripe_webhook e req s =
     (Some (respond 400 (Send (''Webhook Error: '' @ m))),
      console_error (''Webhook Error: '' @ m) s)"
  using assms by (simp add: stripe_webhook_def)

lemma findOneAndUpdate_idem:
  assumes "\<And>x. p (f x) = p x" and "\<And>x. f (f x) = f x"
  shows "snd (findOneAndUpdate p f (snd (findOneAndUpdate p f xs))) =
         snd (findOneAndUpdate p f xs)"
  by (induction xs) (auto simp: assms split: prod.splits)

lemma findOne_first:
  "\<forall>u\<in>set pre. \<not> p u \<Longrightarrow> p v \<Longrightarrow> findOne p (pre @ v # post) = Some v"
  by (induction pre) auto

lemma findOneAndUpdate_miss:
  "findOneAndUpdate p f xs = (None, ys) \<Longrightarrow> ys = xs"
  by (induction xs arbitrary: ys) (auto split: if_splits prod.splits)

lemma run_branch_store_ok:
  assumes "store_error e = Map.empty"
  shows "\<exists>s'. run_branch b e ev s = Returned s' \<and>
     vendors s' =
       (if b = SubscriptionUpdated
        then snd (findOneAndUpdate (\<lambda>v. v_stripeCustomerId v = obj_customer (ev_object ev))
               (\<lambda>v. v\<lparr>v_subscriptionStatus := obj_status (ev_object ev)\<rparr>) (vendors s))
        else vendors s) \<and>
     invoices s' =
       (if b = InvoicePaymentSucceeded
        then snd (findOneAndUpdate (\<lambda>i. inv_id i = obj_id (ev_object ev))
               (\<lambda>i. i\<lparr>inv_status := ''paid''\<rparr>) (invoices s))
        else invoices s)"
proof (cases b)
  case DisputeCreated
  then show ?thesis
    using dispute_flow [of e ev s] assms by auto
next
  case SubscriptionUpdated
  then show ?thesis
    using assms
    by (auto simp: customer_subscription_updated_def subscription_try_def
        ActivityLog_create_def Let_def split: prod.splits option.splits
        dest: findOneAndUpdate_miss)
next
  case InvoicePaymentSucceeded
  then show ?thesis
    using assms
    by (auto simp: invoice_payment_succeeded_def invoice_try_def
        ActivityLog_create_def Let_def split: prod.splits option.splits
        dest: findOneAndUpdate_miss)
next
  case PayoutSucceeded
  then show ?thesis
    using assms by (simp add: payout_succeeded_def ActivityLog_create_def Let_def)
next
  case PayoutFailed
  then show ?thesis
    using assms by (simp add: payout_failed_def ActivityLog_create_def Let_def)
next
  case ChargeRefunded
  then show ?thesis
    using assms by (simp add: charge_refunded_def ActivityLog_create_def Let_def)
next
  case Unhandled
  then show ?thesis
    by (simp add: unhandled_event_def)
qed

lemma webhook_store_ok:
  assumes "constructEvent e (wh_body req) (wh_signature req) (STRIPE_WEBHOOK_SECRET e) = Inr ev"
    and "store_error e = Map.empty"
  shows "\<exists>s'. stripe_webhook e req s = (Some (respond 200 received), s') \<and>
     run_branch (handler_of (ev_type ev)) e ev s = Returned s'"
proof -
  from run_branch_store_ok [OF assms(2), of "handler_of (ev_type ev)" ev s]
  obtain s' where "run_branch (handler_of (ev_type ev)) e ev s = Returned s'" by blast
  then show ?thesis
    by (simp add: webhook_verified [OF assms(1)])
qed

lemma run_branch_returns:
  assumes "store_error e 561 = None" "store_error e 622 = None"
    "store_error e 631 = None" "store_error e 640 = None"
  shows "\<exists>s'. run_branch b e ev s = Returned s'"
proof (cases b)
  case DisputeCreated
  then show ?thesis
    using assms(1)
    by (simp add: charge_dispute_created_def dispute_try_def dispute_catch_def
        ActivityLog_create_def Let_def split: option.splits)
next
  case SubscriptionUpdated
  then show ?thesis
    by (simp add: customer_subscription_updated_def Let_def split: flow.splits)
next
  case InvoicePaymentSucceeded
  then show ?thesis
    by (simp add: invoice_payment_succeeded_def Let_def split: flow.splits)
next
  case PayoutSucceeded
  then show ?thesis
    using assms(2) by (simp add: payout_succeeded_def ActivityLog_create_def Let_def)
next
  case PayoutFailed
  then show ?thesis
    using assms(3) by (simp add: payout_failed_def ActivityLog_create_def Let_def)
next
  case ChargeRefunded
  then show ?thesis
    using assms(4) by (simp add: charge_refunded_def ActivityLog_create_def Let_def)
next
  case Unhandled
  then show ?thesis
    by (simp add: unhandled_event_def)
qed

lemma webhook_never_400_when_verified:
  assumes "constructEvent e (wh_body req) (wh_signature req) (STRIPE_WEBHOOK_SECRET e) = Inr ev"
  shows "fst (stripe_webhook e req s) = Some r \<Longrightarrow> r = respond 200 received"
  by (auto simp: webhook_verified [OF assms] split: flow.splits)

text \<open>
  The webhook answers with status 400 exactly when the verification of the signature
  fails; it then leaves vendors, invoices and ledger as they are and calls the processor
  for nothing. A verified event, of whatever type and whether or not a local record
  matches it, is answered 200 with the acknowledgment when the ledger writes that stand
  outside every \<^verbatim>\<open>try\<close> block (lines 561, 622, 631 and 640) return.
\<close>

lemma webhook_400_iff_verification_fails:
  "((\<exists>r. fst (stripe_webhook e req s) = Some r \<and> status r = 400) \<longleftrightarrow>
      isl (constructEvent e (wh_body req) (wh_signature req) (STRIPE_WEBHOOK_SECRET e))) \<and>
   (isl (constructEvent e (wh_body req) (wh_signature req) (STRIPE_WEBHOOK_SECRET e)) \<longrightarrow>
      vendors (snd (stripe_webhook e req s)) = vendors s \<and>
      invoices (snd (stripe_webhook e req s)) = invoices s \<and>
      activityLogs (snd (stripe_webhook e req s)) = activityLogs s \<and>
      stripe_calls (snd (stripe_webhook e req s)) = stripe_calls s) \<and>
   (store_error e 561 = None \<and> store_error e 622 = None \<and>
    store_error e 631 = None \<and> store_error e 640 = None \<longrightarrow>
    \<not> isl (constructEvent e (wh_body req) (wh_signature req) (STRIPE_WEBHOOK_SECRET e)) \<longrightarrow>
      fst (stripe_webhook e req s) = Some (respond 200 received))"
proof (cases "constructEvent e (wh_body req) (wh_signature req) (STRIPE_WEBHOOK_SECRET e)")
  case (Inl m)
  then show ?thesis
    by (simp add: webhook_unverified [OF Inl] respond_def)
next
  case (Inr ev)
  have "\<not> (\<exists>r. fst (stripe_webhook e req s) = Some r \<and> status r = 400)"
    using webhook_never_400_when_verified [OF Inr, of s] by (auto simp: respond_def)
  moreover have "store_error e 561 = None \<and> store_error e 622 = None \<and>
      store_error e 631 = None \<and> store_error e 640 = None \<longrightarrow>
      fst (stripe_webhook e req s) = Some (respond 200 received)"
    using run_branch_returns [of e "handler_of (ev_type ev)" ev s]
    by (auto simp: webhook_verified [OF Inr])
  ultimately show ?thesis
    using Inr by simp
qed

lemma webhook_400_iff_verification_fails_example:
  "(\<exists>r. fst (stripe_webhook (demo_env ''customer.created'' None) forged_request demo_state) = Some r \<and>
      status r = 400) \<and>
   vendors (snd (stripe_webhook (demo_env ''customer.created'' None) forged_request demo_state)) =
     vendors demo_state \<and>
   invoices (snd (stripe_webhook (demo_env ''customer.created'' None) forged_request demo_state)) =
     invoices demo_state \<and>
   activityLogs (snd (stripe_webhook (demo_env ''customer.created'' None) forged_request demo_state)) =
     activityLogs demo_state \<and>
   stripe_calls (snd (stripe_webhook (demo_env ''customer.created'' None) forged_request demo_state)) =
     stripe_calls demo_state \<and>
   fst (stripe_webhook (demo_env ''customer.created'' None) signed_request demo_state) =
     Some (respond 200 received)"
proof -
  let ?e = "demo_env ''customer.created'' None"
  have f: "isl (constructEvent ?e (wh_body forged_request) (wh_signature forged_request)
      (STRIPE_WEBHOOK_SECRET ?e))"
    by (simp add: demo_defs)
  have g: "\<not> isl (constructEvent ?e (wh_body signed_request) (wh_signature signed_request)
      (STRIPE_WEBHOOK_SECRET ?e))"
    by (simp add: demo_defs)
  have u: "store_error ?e = Map.empty"
    by (simp add: demo_defs)
  show ?thesis
    using webhook_400_iff_verification_fails [of ?e forged_request demo_state]
      webhook_400_iff_verification_fails [of ?e signed_request demo_state] f g u
    by simp
qed

lemma subscription_miss:
  assumes "store_error e 574 = None"
    and "findOne (\<lambda>v. v_stripeCustomerId v = obj_customer (ev_object ev)) (vendors s) = None"
  shows "customer_subscription_updated e ev s =
     Returned (s\<lparr>outbound := outbound s @
       [ConsoleLog (''Subscription updated for customer '' @ obj_customer (ev_object ev) @
          ''. New status: '' @ obj_status (ev_object ev)),
        ConsoleLog (''Vendor not found for Stripe Customer ID: '' @
          obj_customer (ev_object ev) @ ''.'')]\<rparr>)"
  using assms(1) findOne_None [OF assms(2)]
  by (simp add: customer_subscription_updated_def subscription_try_def Let_def console_log_def)

lemma invoice_miss:
  assumes "store_error e 598 = None"
    and "findOne (\<lambda>i. inv_id i = obj_id (ev_object ev)) (invoices s) = None"
  shows "invoice_payment_succeeded e ev s =
     Returned (s\<lparr>outbound := outbound s @
       [ConsoleLog (''Invoice payment succeeded for invoice ID: '' @ obj_id (ev_object ev)),
        ConsoleLog (''Invoice not found for ID: '' @ obj_id (ev_object ev) @ ''.'')]\<rparr>)"
  using assms(1) findOne_None [OF assms(2)]
  by (simp add: invoice_payment_succeeded_def invoice_try_def Let_def console_log_def)

text \<open>
  Against C7 as the specification words it: a subscription update for a customer that
  no vendor has is acknowledged, and the ledger stays empty.
\<close>

theorem lookup_miss_writes_no_ledger_entry:
  "vendors empty_state = [] \<and>
   fst (stripe_webhook (demo_env ''customer.subscription.updated'' None) signed_request empty_state) =
     Some (respond 200 received) \<and>
   activityLogs
     (snd (stripe_webhook (demo_env ''customer.subscription.updated'' None) signed_request empty_state)) = []"
proof -
  let ?e = "demo_env ''customer.subscription.updated'' None"
  let ?ev = "demo_event ''customer.subscription.updated''"
  have v: "constructEvent ?e (wh_body signed_request) (wh_signature signed_request)
      (STRIPE_WEBHOOK_SECRET ?e) = Inr ?ev"
    by (simp add: demo_defs)
  have h: "handler_of (ev_type ?ev) = SubscriptionUpdated"
    by (simp add: demo_defs handler_of_def)
  have m: "customer_subscription_updated ?e ?ev empty_state =
     Returned (empty_state\<lparr>outbound := outbound empty_state @
       [ConsoleLog (''Subscription updated for customer '' @ obj_customer (ev_object ?ev) @
          ''. New status: '' @ obj_status (ev_object ?ev)),
        ConsoleLog (''Vendor not found for Stripe Customer ID: '' @
          obj_customer (ev_object ?ev) @ ''.'')]\<rparr>)"
    by (rule subscription_miss) (simp_all add: demo_defs)
  show ?thesis
    by (simp add: webhook_verified [OF v] h m) (simp add: empty_state_def)
qed

text \<open>
  C7, amended. A verified subscription update or invoice payment whose lookup finds no
  local record: the route writes two lines on the console, the second of which names the
  record that was not found, writes no ledger entry, changes no vendor and no invoice,
  and answers 200 with the acknowledgment.
\<close>

theorem lookup_miss_console_only:
  assumes "constructEvent e (wh_body req) (wh_signature req) (STRIPE_WEBHOOK_SECRET e) = Inr ev"
    and "(ev_type ev = ''customer.subscription.updated'' \<and> store_error e 574 = None \<and>
          findOne (\<lambda>v. v_stripeCustomerId v = obj_customer (ev_object ev)) (vendors s) = None) \<or>
         (ev_type ev = ''invoice.payment_succeeded'' \<and> store_error e 598 = None \<and>
          findOne (\<lambda>i. inv_id i = obj_id (ev_object ev)) (invoices s) = None)"
  shows "fst (stripe_webhook e req s) = Some (respond 200 received) \<and>
     vendors (snd (stripe_webhook e req s)) = vendors s \<and>
     invoices (snd (stripe_webhook e req s)) = invoices s \<and>
     activityLogs (snd (stripe_webhook e req s)) = activityLogs s \<and>
     outbound (snd (stripe_webhook e req s)) = outbound s @
       (if ev_type ev = ''customer.subscription.updated''
        then [ConsoleLog (''Subscription updated for customer '' @ obj_customer (ev_object ev) @
                ''. New status: '' @ obj_status (ev_object ev)),
              ConsoleLog (''Vendor not found for Stripe Customer ID: '' @
                obj_customer (ev_object ev) @ ''.'')]
        else [ConsoleLog (''Invoice payment succeeded for invoice ID: '' @ obj_id (ev_object ev)),
              ConsoleLog (''Invoice not found for ID: '' @ obj_id (ev_object ev) @ ''.'')])"
  using assms(2)
proof (elim disjE conjE)
  assume t: "ev_type ev = ''customer.subscription.updated''"
    and "store_error e 574 = None"
    and "findOne (\<lambda>v. v_stripeCustomerId v = obj_customer (ev_object ev)) (vendors s) = None"
  then show ?thesis
    by (simp add: webhook_verified [OF assms(1)] handler_of_def subscription_miss)
next
  assume t: "ev_type ev = ''invoice.payment_succeeded''"
    and "store_error e 598 = None"
    and "findOne (\<lambda>i. inv_id i = obj_id (ev_object ev)) (invoices s) = None"
  then show ?thesis
    by (simp add: webhook_verified [OF assms(1)] handler_of_def invoice_miss)
qed

theorem lookup_miss_console_only_witness:
  "fst (stripe_webhook (demo_env ''invoice.payment_succeeded'' None) signed_request empty_state) =
     Some (respond 200 received) \<and>
   snd (stripe_webhook (demo_env ''invoice.payment_succeeded'' None) signed_request empty_state) =
     \<lparr>vendors = [], invoices = [], activityLogs = [],
      outbound = [ConsoleLog ''Invoice payment succeeded for invoice ID: in_1'',
                  ConsoleLog ''Invoice not found for ID: in_1.'']\<rparr>"
proof -
  let ?e = "demo_env ''invoice.payment_succeeded'' None"
  let ?ev = "demo_event ''invoice.payment_succeeded''"
  have v: "constructEvent ?e (wh_body signed_request) (wh_signature signed_request)
      (STRIPE_WEBHOOK_SECRET ?e) = Inr ?ev"
    by (simp add: demo_defs)
  have h: "(ev_type ?ev = ''customer.subscription.updated'' \<and> store_error ?e 574 = None \<and>
          findOne (\<lambda>v. v_stripeCustomerId v = obj_customer (ev_object ?ev)) (vendors empty_state) = None) \<or>
         (ev_type ?ev = ''invoice.payment_succeeded'' \<and> store_error ?e 598 = None \<and>
          findOne (\<lambda>i. inv_id i = obj_id (ev_object ?ev)) (invoices empty_state) = None)"
    by (simp add: demo_defs)
  have a: "ev_type ?ev = ''invoice.payment_succeeded''" "obj_id (ev_object ?ev) = ''in_1''"
    "vendors empty_state = []" "invoices empty_state = []" "activityLogs empty_state = []"
    "outbound empty_state = []"
    by (simp_all add: demo_defs)
  have eq: "\<And>x. x = \<lparr>vendors = vendors x, invoices = invoices x,
      activityLogs = activityLogs x, outbound = outbound x\<rparr>"
    by simp
  show ?thesis
    using lookup_miss_console_only [OF v h]
    by (subst (2) eq) (simp add: a)
qed

lemma deliver_store_ok:
  assumes "constructEvent e (wh_body req) (wh_signature req) (STRIPE_WEBHOOK_SECRET e) = Inr ev"
    and "store_error e = Map.empty"
  shows "run_branch (handler_of (ev_type ev)) e ev s = Returned (deliver e req s)"
  using webhook_store_ok [OF assms, of s] by (auto simp: deliver_def)

lemma deliver_entities:
  assumes "constructEvent e (wh_body req) (wh_signature req) (STRIPE_WEBHOOK_SECRET e) = Inr ev"
    and "store_error e = Map.empty"
  shows "vendors (deliver e req s) =
       (if handler_of (ev_type ev) = SubscriptionUpdated
        then snd (findOneAndUpdate (\<lambda>v. v_stripeCustomerId v = obj_customer (ev_object ev))
               (\<lambda>v. v\<lparr>v_subscriptionStatus := obj_status (ev_object ev)\<rparr>) (vendors s))
        else vendors s)"
    and "invoices (deliver e req s) =
       (if handler_of (ev_type ev) = InvoicePaymentSucceeded
        then snd (findOneAndUpdate (\<lambda>i. inv_id i = obj_id (ev_object ev))
               (\<lambda>i. i\<lparr>inv_status := ''paid''\<rparr>) (invoices s))
        else invoices s)"
  using run_branch_store_ok [OF assms(2), of "handler_of (ev_type ev)" ev s]
    deliver_store_ok [OF assms, of s]
  by auto

lemma entries_of_type_append:
  "activityLogs s' = activityLogs s @ ls \<Longrightarrow>
   entries_of_type ty s' = entries_of_type ty s @ filter (\<lambda>l. log_eventType l = ty) ls"
  by (simp add: entries_of_type_def)

text \<open>
  Against C1 as the specification words it: the same event delivered twice leaves two
  \<^verbatim>\<open>invoice_paid\<close> entries in the ledger, and two refund attempts for the charge of a
  dispute.
\<close>

theorem redelivery_duplicates_entry_and_refund:
  "map log_eventType (activityLogs
     (deliver (demo_env ''invoice.payment_succeeded'' None) signed_request
        (deliver (demo_env ''invoice.payment_succeeded'' None) signed_request demo_state))) =
     [''invoice_paid'', ''invoice_paid''] \<and>
   refund_attempts
     (deliver (demo_env ''charge.dispute.created'' None) signed_request
        (deliver (demo_env ''charge.dispute.created'' None) signed_request demo_state)) =
     [''ch_1'', ''ch_1'']"
  by (simp add: deliver_def stripe_webhook_def dispatch_handler_of handler_of_def demo_defs
      invoice_payment_succeeded_def invoice_try_def charge_dispute_created_def dispute_try_def
      ActivityLog_create_def console_log_def stripe_called_def refund_attempts_def
      refund_charge_def List.map_filter_def Let_def)

text \<open>
  C1, amended. The route keeps no record of the events it has handled: a second
  delivery of an event is handled as the first was. With the store answering on both
  deliveries, vendors and invoices after two deliveries are those after one; two
  deliveries of a dispute event make two refund attempts for the charge and append two
  ledger entries; two deliveries of \<^verbatim>\<open>invoice.payment_succeeded\<close> for a stored invoice
  append two \<^verbatim>\<open>invoice_paid\<close> entries.
\<close>

theorem redelivery_handled_again:
  assumes v1: "constructEvent e (wh_body req) (wh_signature req) (STRIPE_WEBHOOK_SECRET e) = Inr ev"
    and v2: "constructEvent e' (wh_body req) (wh_signature req) (STRIPE_WEBHOOK_SECRET e') = Inr ev"
    and u1: "store_error e = Map.empty"
    and u2: "store_error e' = Map.empty"
  shows "vendors (deliver e' req (deliver e req s)) = vendors (deliver e req s) \<and>
     invoices (deliver e' req (deliver e req s)) = invoices (deliver e req s) \<and>
     (ev_type ev = ''charge.dispute.created'' \<longrightarrow>
        refund_attempts (deliver e' req (deliver e req s)) =
          refund_attempts s @ [obj_charge (ev_object ev), obj_charge (ev_object ev)] \<and>
        length (activityLogs (deliver e' req (deliver e req s))) =
          length (activityLogs s) + 2) \<and>
     (ev_type ev = ''invoice.payment_succeeded'' \<and>
      findOne (\<lambda>i. inv_id i = obj_id (ev_object ev)) (invoices s) = Some i \<longrightarrow>
        entries_of_type ''invoice_paid'' (deliver e' req (deliver e req s)) =
          entries_of_type ''invoice_paid'' s @
          [\<lparr>log_eventType = ''invoice_paid'',
            log_description = ''Invoice '' @ inv_id i @ '' paid successfully.'',
            log_timestamp = now e, log_relatedId = Some (inv_oid i)\<rparr>,
           \<lparr>log_eventType = ''invoice_paid'',
            log_description = ''Invoice '' @ inv_id i @ '' paid successfully.'',
            log_timestamp = now e', log_relatedId = Some (inv_oid i)\<rparr>])"
proof (intro conjI impI)
  show "vendors (deliver e' req (deliver e req s)) = vendors (deliver e req s)"
    by (simp add: deliver_entities(1) [OF v1 u1] deliver_entities(1) [OF v2 u2]
        findOneAndUpdate_idem)
  show "invoices (deliver e' req (deliver e req s)) = invoices (deliver e req s)"
    by (simp add: deliver_entities(2) [OF v1 u1] deliver_entities(2) [OF v2 u2]
        findOneAndUpdate_idem)
next
  assume t: "ev_type ev = ''charge.dispute.created''"
  then have h: "handler_of (ev_type ev) = DisputeCreated"
    by (simp add: handler_of_def)
  have r1: "charge_dispute_created e ev s = Returned (deliver e req s)"
    using deliver_store_ok [OF v1 u1, of s] h by simp
  have r2: "charge_dispute_created e' ev (deliver e req s) =
      Returned (deliver e' req (deliver e req s))"
    using deliver_store_ok [OF v2 u2, of "deliver e req s"] h by simp
  show "refund_attempts (deliver e' req (deliver e req s)) =
          refund_attempts s @ [obj_charge (ev_object ev), obj_charge (ev_object ev)]"
    using dispute_flow(1) [OF _ _ r1] dispute_flow(1) [OF _ _ r2] u1 u2 by simp
  show "length (activityLogs (deliver e' req (deliver e req s))) =
          length (activityLogs s) + 2"
    using dispute_flow(1) [OF _ _ r1] dispute_flow(1) [OF _ _ r2] u1 u2 by simp
next
  assume a: "ev_type ev = ''invoice.payment_succeeded'' \<and>
      findOne (\<lambda>i. inv_id i = obj_id (ev_object ev)) (invoices s) = Some i"
  then have h: "handler_of (ev_type ev) = InvoicePaymentSucceeded"
    by (simp add: handler_of_def)
  from a have f: "findOne (\<lambda>i. inv_id i = obj_id (ev_object ev)) (invoices s) = Some i"
    by simp
  let ?s1 = "deliver e req s"
  let ?s2 = "deliver e' req ?s1"
  have k1: "store_error e 598 = None \<and> store_error e 606 = None"
    and k2: "store_error e' 598 = None \<and> store_error e' 606 = None"
    using u1 u2 by simp_all
  from invoice_found [OF k1 f] deliver_store_ok [OF v1 u1, of s] h
  obtain pre post where p: "invoices s = pre @ i # post"
    "\<forall>u\<in>set pre. inv_id u \<noteq> obj_id (ev_object ev)"
    "invoices ?s1 = pre @ i\<lparr>inv_status := ''paid''\<rparr> # post"
    and l1: "activityLogs ?s1 = activityLogs s @
       [\<lparr>log_eventType = ''invoice_paid'',
         log_description = ''Invoice '' @ inv_id i @ '' paid successfully.'',
         log_timestamp = now e, log_relatedId = Some (inv_oid i)\<rparr>]"
    by auto
  from f have m: "inv_id i = obj_id (ev_object ev)"
    using findOne_Some [OF f, of id] by auto
  have f2: "findOne (\<lambda>i. inv_id i = obj_id (ev_object ev)) (invoices ?s1) =
      Some (i\<lparr>inv_status := ''paid''\<rparr>)"
    unfolding p(3) by (rule findOne_first) (use p(2) m in auto)
  from invoice_found [OF k2 f2] deliver_store_ok [OF v2 u2, of ?s1] h
  have l2: "activityLogs ?s2 = activityLogs ?s1 @
       [\<lparr>log_eventType = ''invoice_paid'',
         log_description = ''Invoice '' @ inv_id i @ '' paid successfully.'',
         log_timestamp = now e', log_relatedId = Some (inv_oid i)\<rparr>]"
    by auto
  show "entries_of_type ''invoice_paid'' ?s2 =
          entries_of_type ''invoice_paid'' s @
          [\<lparr>log_eventType = ''invoice_paid'',
            log_description = ''Invoice '' @ inv_id i @ '' paid successfully.'',
            log_timestamp = now e, log_relatedId = Some (inv_oid i)\<rparr>,
           \<lparr>log_eventType = ''invoice_paid'',
            log_description = ''Invoice '' @ inv_id i @ '' paid successfully.'',
            log_timestamp = now e', log_relatedId = Some (inv_oid i)\<rparr>]"
    by (simp add: entries_of_type_def l1 l2)
qed


theorem redelivery_handled_again_witness:
  "map inv_status (invoices
     (deliver (demo_env ''invoice.payment_succeeded'' None) signed_request
        (deliver (demo_env ''invoice.payment_succeeded'' None) signed_request demo_state))) =
   map inv_status (invoices
     (deliver (demo_env ''invoice.payment_succeeded'' None) signed_request demo_state)) \<and>
   entries_of_type ''invoice_paid''
     (deliver (demo_env ''invoice.payment_succeeded'' None) signed_request
        (deliver (demo_env ''invoice.payment_succeeded'' None) signed_request demo_state)) =
     [\<lparr>log_eventType = ''invoice_paid'',
       log_description = ''Invoice in_1 paid successfully.'',
       log_timestamp = 1000, log_relatedId = Some ''65f000000000000000000002''\<rparr>,
      \<lparr>log_eventType = ''invoice_paid'',
       log_description = ''Invoice in_1 paid successfully.'',
       log_timestamp = 1000, log_relatedId = Some ''65f000000000000000000002''\<rparr>] \<and>
   refund_attempts
     (deliver (demo_env ''charge.dispute.created'' (Some ''Charge ch_1 has already been refunded.''))
        signed_request
        (deliver (demo_env ''charge.dispute.created'' None) signed_request demo_state)) =
     [''ch_1'', ''ch_1'']"
proof -
  have v: "constructEvent (demo_env t r) (wh_body signed_request) (wh_signature signed_request)
      (STRIPE_WEBHOOK_SECRET (demo_env t r)) = Inr (demo_event t)" for t r
    by (simp add: demo_defs)
  have u: "store_error (demo_env t r) = Map.empty" for t r
    by (simp add: demo_defs)
  have f: "findOne (\<lambda>i. inv_id i = obj_id (ev_object (demo_event ''invoice.payment_succeeded'')))
      (invoices demo_state) = Some demo_invoice"
    by (simp add: demo_defs)
  have a: "ev_type (demo_event t) = t" "obj_charge (ev_object (demo_event t)) = ''ch_1''"
    "refund_attempts demo_state = []" "entries_of_type ty demo_state = []"
    "now (demo_env t r) = 1000" "inv_id demo_invoice = ''in_1''"
    "inv_oid demo_invoice = ''65f000000000000000000002''" for t r ty
    by (simp_all add: demo_defs refund_attempts_def entries_of_type_def List.map_filter_def)
  show ?thesis
    using redelivery_handled_again [where e = "demo_env ''invoice.payment_succeeded'' None"
        and e' = "demo_env ''invoice.payment_succeeded'' None" and req = signed_request
        and s = demo_state and i = demo_invoice, OF v v u u]
      redelivery_handled_again [where e = "demo_env ''charge.dispute.created'' None"
        and e' = "demo_env ''charge.dispute.created'' (Some ''Charge ch_1 has already been refunded.'')"
        and req = signed_request and s = demo_state and i = demo_invoice, OF v v u u]
    by (simp add: a f)
qed

section \<open>Login\<close>

text \<open>
  Where the route finds out that the credentials fail, it answers 401 with one message,
  whether the username is unknown or the password wrong.
\<close>

lemma login_rejected:
  assumes "store_error e 150 = None" and "truthy username" and "truthy password"
    and "credentials_fail e username password s"
  shows "fst (login e (Some username) (Some password) s) =
     Some (respond 401 (message ''Invalid credentials.''))"
  using assms
  by (auto simp: login_def login_try_def catch_500_def credentials_fail_def falsy_json_def
      Let_def split: option.splits sum.splits)

text \<open>
  Where bcrypt throws on the password, which it is handed only when a vendor has the
  username, the route answers 500.
\<close>

lemma login_compare_throws:
  assumes "store_error e 150 = None" and "truthy username" and "truthy password"
    and "username_filter e username = Inr matches"
    and "findOne (\<lambda>v. matches (v_username v)) (vendors s) = Some vendor"
    and "bcrypt_compare e password (v_password vendor) = Inl m"
  shows "fst (login e (Some username) (Some password) s) =
     Some (respond 500 (failure ''Login failed.'' m))"
  using assms
  by (simp add: login_def login_try_def catch_500_def falsy_json_def Let_def)

text \<open>
  C10 fails on the code. The request \<^verbatim>\<open>{username: 'v1', password: 123}\<close> passes the check
  of line 145, since 123 is truthy. In a store without a vendor \<^verbatim>\<open>v1\<close> the route answers
  401 \<^verbatim>\<open>Invalid credentials.\<close> (line 153); in a store with one it hands 123 to
  \<^verbatim>\<open>bcrypt.compare\<close> (line 156), which throws, and answers 500 \<^verbatim>\<open>Login failed.\<close> (line 175).
  The two responses differ, so the response tells whether the username exists.
\<close>

theorem login_reveals_known_username:
  "fst (login (demo_env [] None) (Some (JStr ''v1'')) (Some (JNum 123)) empty_state) =
     Some (respond 401 (message ''Invalid credentials.'')) \<and>
   fst (login (demo_env [] None) (Some (JStr ''v1'')) (Some (JNum 123)) demo_state) =
     Some (respond 500 (failure ''Login failed.'' ''Illegal arguments: number, string''))"
  by (simp add: login_def login_try_def username_filter_def catch_500_def falsy_json_def
      Let_def demo_defs)

section \<open>The Activity Ledger\<close>

lemma activityLogs_save_vendor [simp]: "activityLogs (save_vendor v s) = activityLogs s"
  by (simp add: save_vendor_def)

lemma ledger_ActivityLog_create:
  "ActivityLog_create e n ty d r s = Returned s' \<Longrightarrow> \<exists>new. activityLogs s' = activityLogs s @ new"
  "ActivityLog_create e n ty d r s = Thrown m s' \<Longrightarrow> activityLogs s' = activityLogs s"
  by (auto simp: ActivityLog_create_def split: option.splits)

lemma ledger_catch_500:
  assumes "\<And>resp s'. r = Replied resp s' \<Longrightarrow> \<exists>new. activityLogs s' = activityLogs s @ new"
    and "\<And>m s'. r = Raised m s' \<Longrightarrow> \<exists>new. activityLogs s' = activityLogs s @ new"
  shows "\<exists>new. activityLogs (snd (catch_500 l msg r)) = activityLogs s @ new"
  using assms by (cases r) (auto simp: catch_500_def)

lemma ledger_authenticateToken:
  assumes "\<And>u. \<exists>new. activityLogs (snd (h u s)) = activityLogs s @ new"
  shows "\<exists>new. activityLogs (snd (authenticateToken e token h s)) = activityLogs s @ new"
  using assms by (auto simp: authenticateToken_def split: option.splits sum.splits)

lemma ledger_register:
  "\<exists>new. activityLogs (snd (register e username password s)) = activityLogs s @ new"
  unfolding register_def
  by (auto simp: register_try_def Let_def intro!: ledger_catch_500
      split: option.splits sum.splits flow.splits if_splits
      dest!: ledger_ActivityLog_create)


lemma ledger_admin_vendors_approve:
  "\<exists>new. activityLogs (snd (admin_vendors_approve e token username s)) = activityLogs s @ new"
  unfolding admin_vendors_approve_def
  by (auto simp: Let_def  intro!: ledger_catch_500 ledger_authenticateToken
      split: option.splits sum.splits flow.splits if_splits prod.splits list.splits
      dest!: ledger_ActivityLog_create)

lemma ledger_create_customer:
  "\<exists>new. activityLogs (snd (create_customer e email name phone s)) = activityLogs s @ new"
  unfolding create_customer_def
  by (auto simp: Let_def  intro!: ledger_catch_500 ledger_authenticateToken
      split: option.splits sum.splits flow.splits if_splits prod.splits list.splits
      dest!: ledger_ActivityLog_create)

lemma ledger_create_setup_intent:
  "\<exists>new. activityLogs (snd (create_setup_intent e customerId s)) = activityLogs s @ new"
  unfolding create_setup_intent_def
  by (auto simp: Let_def  intro!: ledger_catch_500 ledger_authenticateToken
      split: option.splits sum.splits flow.splits if_splits prod.splits list.splits
      dest!: ledger_ActivityLog_create)

lemma ledger_vendor_add_customer:
  "\<exists>new. activityLogs (snd (vendor_add_customer e token vendorUsername customerId s)) = activityLogs s @ new"
  unfolding vendor_add_customer_def
  by (auto simp: Let_def  intro!: ledger_catch_500 ledger_authenticateToken
      split: option.splits sum.splits flow.splits if_splits prod.splits list.splits
      dest!: ledger_ActivityLog_create)

lemma ledger_create_payment_intent:
  "\<exists>new. activityLogs (snd (create_payment_intent e token customerId amount s)) = activityLogs s @ new"
  unfolding create_payment_intent_def
  by (auto simp: Let_def  intro!: ledger_catch_500 ledger_authenticateToken
      split: option.splits sum.splits flow.splits if_splits prod.splits list.splits
      dest!: ledger_ActivityLog_create)

lemma ledger_admin_vendors_pending:
  "\<exists>new. activityLogs (snd (admin_vendors_pending e token s)) = activityLogs s @ new"
  unfolding admin_vendors_pending_def
  by (auto simp: Let_def  intro!: ledger_catch_500 ledger_authenticateToken
      split: option.splits sum.splits flow.splits if_splits prod.splits list.splits
      dest!: ledger_ActivityLog_create)

lemma ledger_admin_vendors_all:
  "\<exists>new. activityLogs (snd (admin_vendors_all e token search approved subscriptionStatus s)) = activityLogs s @ new"
  unfolding admin_vendors_all_def
  by (auto simp: Let_def  intro!: ledger_catch_500 ledger_authenticateToken
      split: option.splits sum.splits flow.splits if_splits prod.splits list.splits
      dest!: ledger_ActivityLog_create)

lemma ledger_admin_analytics:
  "\<exists>new. activityLogs (snd (admin_analytics e token s)) = activityLogs s @ new"
  unfolding admin_analytics_def
  by (auto simp: Let_def  intro!: ledger_catch_500 ledger_authenticateToken
      split: option.splits sum.splits flow.splits if_splits prod.splits list.splits
      dest!: ledger_ActivityLog_create)

lemma ledger_vendor_invoices:
  "\<exists>new. activityLogs (snd (vendor_invoices e vendorUsername s)) = activityLogs s @ new"
  unfolding vendor_invoices_def
  by (auto simp: Let_def  intro!: ledger_catch_500 ledger_authenticateToken
      split: option.splits sum.splits flow.splits if_splits prod.splits list.splits
      dest!: ledger_ActivityLog_create)

lemma ledger_admin_activity_log:
  "\<exists>new. activityLogs (snd (admin_activity_log e token search eventType s)) = activityLogs s @ new"
  unfolding admin_activity_log_def
  by (auto simp: Let_def  intro!: ledger_catch_500 ledger_authenticateToken
      split: option.splits sum.splits flow.splits if_splits prod.splits list.splits
      dest!: ledger_ActivityLog_create)

lemma ledger_customer_invoices:
  "\<exists>new. activityLogs (snd (customer_invoices e token customerId s)) = activityLogs s @ new"
  unfolding customer_invoices_def
  by (auto simp: Let_def  intro!: ledger_catch_500 ledger_authenticateToken
      split: option.splits sum.splits flow.splits if_splits prod.splits list.splits
      dest!: ledger_ActivityLog_create)

lemma ledger_vendor_get_current_user:
  "\<exists>new. activityLogs (snd (vendor_get_current_user e token s)) = activityLogs s @ new"
  unfolding vendor_get_current_user_def
  by (auto simp: Let_def  intro!: ledger_catch_500 ledger_authenticateToken
      split: option.splits sum.splits flow.splits if_splits prod.splits list.splits
      dest!: ledger_ActivityLog_create)

lemma ledger_vendor_create_subscription_setup_intent:
  "\<exists>new. activityLogs (snd (vendor_create_subscription_setup_intent e token s)) = activityLogs s @ new"
  unfolding vendor_create_subscription_setup_intent_def
  by (auto simp: Let_def  intro!: ledger_catch_500 ledger_authenticateToken
      split: option.splits sum.splits flow.splits if_splits prod.splits list.splits
      dest!: ledger_ActivityLog_create)

lemma ledger_admin_vendor_details:
  "\<exists>new. activityLogs (snd (admin_vendor_details e token username s)) = activityLogs s @ new"
  unfolding admin_vendor_details_def
  by (auto simp: Let_def  intro!: ledger_catch_500 ledger_authenticateToken
      split: option.splits sum.splits flow.splits if_splits prod.splits list.splits
      dest!: ledger_ActivityLog_create)

lemma ledger_check_auth:
  "\<exists>new. activityLogs (snd (check_auth e token s)) = activityLogs s @ new"
  unfolding check_auth_def
  by (auto simp: Let_def  intro!: ledger_catch_500 ledger_authenticateToken
      split: option.splits sum.splits flow.splits if_splits prod.splits list.splits
      dest!: ledger_ActivityLog_create)

lemma ledger_vendor_payout_history:
  "\<exists>new. activityLogs (snd (vendor_payout_history e token s)) = activityLogs s @ new"
  unfolding vendor_payout_history_def
  by (auto simp: Let_def  intro!: ledger_catch_500 ledger_authenticateToken
      split: option.splits sum.splits flow.splits if_splits prod.splits list.splits
      dest!: ledger_ActivityLog_create)

lemma ledger_vendor_create_subscription:
  "\<exists>new. activityLogs (snd (vendor_create_subscription e token vendorUsername paymentMethodId s)) = activityLogs s @ new"
  unfolding vendor_create_subscription_def
  by (auto simp: Let_def subscribe_vendor_def intro!: ledger_catch_500 ledger_authenticateToken
      split: option.splits sum.splits flow.splits if_splits prod.splits list.splits
      dest!: ledger_ActivityLog_create)

lemma ledger_vendor_request_payout:
  "\<exists>new. activityLogs (snd (vendor_request_payout e token vendorUsername amount s)) = activityLogs s @ new"
  unfolding vendor_request_payout_def
  by (auto simp: Let_def pay_out_def intro!: ledger_catch_500 ledger_authenticateToken
      split: option.splits sum.splits flow.splits if_splits prod.splits list.splits
      dest!: ledger_ActivityLog_create)

lemma ledger_vendor_create_stripe_connect_account:
  "\<exists>new. activityLogs (snd (vendor_create_stripe_connect_account e token vendorUsername s)) = activityLogs s @ new"
  unfolding vendor_create_stripe_connect_account_def
  by (auto simp: Let_def connect_account_def intro!: ledger_catch_500 ledger_authenticateToken
      split: option.splits sum.splits flow.splits if_splits prod.splits list.splits
      dest!: ledger_ActivityLog_create)

lemma ledger_vendor_cancel_subscription:
  "\<exists>new. activityLogs (snd (vendor_cancel_subscription e token s)) = activityLogs s @ new"
  unfolding vendor_cancel_subscription_def
  by (auto simp: Let_def cancel_subscription_def intro!: ledger_catch_500 ledger_authenticateToken
      split: option.splits sum.splits flow.splits if_splits prod.splits list.splits
      dest!: ledger_ActivityLog_create)

lemma ledger_simple_routes:
  "activityLogs (snd (get_root s)) = activityLogs s"
  "activityLogs (snd (login e username password s)) = activityLogs s"
  "activityLogs (snd (admin_login e adminname adminpass s)) = activityLogs s"
  "activityLogs (snd (logout e s)) = activityLogs s"
  "activityLogs (snd (customer_generate_invite_link customerId s)) = activityLogs s"
  by (auto simp: get_root_def login_def login_try_def admin_login_def logout_def
      customer_generate_invite_link_def catch_500_def Let_def
      split: option.splits sum.splits)

lemma ledger_enrich_customer:
  "enrich_customer e c s = (j, s') \<Longrightarrow> activityLogs s' = activityLogs s"
  by (auto simp: enrich_customer_def enrich_failed_def Let_def split: sum.splits)

lemma ledger_enrich_customers:
  "enrich_customers e cs s = (js, s') \<Longrightarrow> activityLogs s' = activityLogs s"
proof (induction cs arbitrary: s js s')
  case Nil
  then show ?case by simp
next
  case (Cons c cs)
  then show ?case
    by (auto split: prod.splits dest!: ledger_enrich_customer)
qed

lemma ledger_vendor_customers:
  "\<exists>new. activityLogs (snd (vendor_customers e token username s)) = activityLogs s @ new"
  unfolding vendor_customers_def
  by (auto simp: Let_def intro!: ledger_catch_500 ledger_authenticateToken
      split: option.splits sum.splits prod.splits dest!: ledger_enrich_customers)

lemma ledger_record_invoice:
  "\<exists>new. activityLogs (snd (record_invoice e a b answer doc ty d s)) = activityLogs s @ new"
  by (auto simp: record_invoice_def split: option.splits flow.splits
      dest!: ledger_ActivityLog_create)

lemma ledger_create_invoice:
  "\<exists>new. activityLogs (snd (create_invoice e token customerId amount description s)) =
     activityLogs s @ new"
  unfolding create_invoice_def
  using ledger_record_invoice [of e _ _ _ _ _ _ "stripe_called _ (stripe_called _ (stripe_called _ s))"]
    ledger_record_invoice [of e _ _ _ _ _ _
      "stripe_called _ (stripe_called _ (stripe_called _ (stripe_called _ s)))"]
  by (auto simp: Let_def invoice_charged_def invoice_sent_manually_def invoice_failed_def
      intro!: ledger_authenticateToken split: option.splits sum.splits)

lemma ledger_run_branch:
  "run_branch b e ev s = Returned s' \<or> run_branch b e ev s = Thrown m s' \<Longrightarrow>
   \<exists>new. activityLogs s' = activityLogs s @ new"
  by (cases b)
    (auto simp: charge_dispute_created_def dispute_try_def dispute_catch_def
      customer_subscription_updated_def subscription_try_def
      invoice_payment_succeeded_def invoice_try_def payout_succeeded_def payout_failed_def
      charge_refunded_def unhandled_event_def Let_def
      split: option.splits flow.splits prod.splits
      dest!: ledger_ActivityLog_create)

lemma ledger_stripe_webhook:
  "\<exists>new. activityLogs (snd (stripe_webhook e req s)) = activityLogs s @ new"
proof (cases "constructEvent e (wh_body req) (wh_signature req) (STRIPE_WEBHOOK_SECRET e)")
  case (Inl m)
  then show ?thesis by (simp add: webhook_unverified)
next
  case (Inr ev)
  show ?thesis
    using ledger_run_branch [of "handler_of (ev_type ev)" e ev s]
    by (auto simp: webhook_verified [OF Inr] split: flow.splits)
qed

lemma ledger_step: "\<exists>new. activityLogs (snd (step e r s)) = activityLogs s @ new"
proof (cases r)
qed (simp_all add: ledger_simple_routes ledger_register ledger_admin_vendors_approve
  ledger_create_customer ledger_create_setup_intent ledger_vendor_add_customer
  ledger_create_payment_intent ledger_admin_vendors_pending ledger_admin_vendors_all
  ledger_admin_analytics ledger_vendor_invoices ledger_admin_activity_log
  ledger_customer_invoices ledger_vendor_get_current_user
  ledger_vendor_create_subscription_setup_intent ledger_admin_vendor_details
  ledger_check_auth ledger_vendor_payout_history ledger_vendor_create_subscription
  ledger_vendor_request_payout ledger_vendor_create_stripe_connect_account
  ledger_vendor_cancel_subscription ledger_vendor_customers ledger_create_invoice
  ledger_stripe_webhook)

lemma ledger_run: "\<exists>new. activityLogs (run rs s) = activityLogs s @ new"
proof (induction rs arbitrary: s)
  case Nil
  then show ?case by simp
next
  case (Cons x rs)
  obtain e r where x: "x = (e, r)" by (cases x)
  from ledger_step [of e r s] obtain n1 where
    "activityLogs (snd (step e r s)) = activityLogs s @ n1" by blast
  moreover from Cons.IH [of "snd (step e r s)"] obtain n2 where
    "activityLogs (run rs (snd (step e r s))) = activityLogs (snd (step e r s)) @ n2" by blast
  ultimately show ?case by (simp add: x)
qed


lemma newest_first_sorted:
  "sorted_wrt (\<lambda>a b. log_timestamp b \<le> log_timestamp a) (newest_first ls)"
  using sorted_sort_key [of log_timestamp ls]
  by (simp add: newest_first_def sorted_wrt_rev sorted_map)

lemma newest_first_mset: "mset (newest_first ls) = mset ls"
  by (simp add: newest_first_def)

text \<open>
  C9. The ledger is append-only: after any request, and so after any sequence of
  requests, the ledger is the ledger before it followed by new entries. The query of
  the activity log returns the entries that match, ordered by timestamp descending, and
  this list is what the route answers to an admin.
\<close>

theorem ledger_append_only_newest_first:
  "(\<exists>new. activityLogs (snd (step e r s)) = activityLogs s @ new) \<and>
   (\<exists>new. activityLogs (run rs s) = activityLogs s @ new) \<and>
   sorted_wrt (\<lambda>a b. log_timestamp b \<le> log_timestamp a)
     (find_activity_logs e search eventType s) \<and>
   mset (find_activity_logs e search eventType s) =
     mset (filter (log_matches e search eventType) (activityLogs s)) \<and>
   (jwt_verify e t = Inr u \<and> u_role u = ''admin'' \<and> store_error e 741 = None \<longrightarrow>
      step e (AdminActivityLog (Some t) search eventType) s =
        (Some (respond 200 (Json (JArr (map activity_log_json
           (find_activity_logs e search eventType s))))), s))"
proof (intro conjI impI)
  show "\<exists>new. activityLogs (snd (step e r s)) = activityLogs s @ new"
    by (rule ledger_step)
  show "\<exists>new. activityLogs (run rs s) = activityLogs s @ new"
    by (rule ledger_run)
  show "sorted_wrt (\<lambda>a b. log_timestamp b \<le> log_timestamp a)
     (find_activity_logs e search eventType s)"
    by (simp add: find_activity_logs_def newest_first_sorted)
  show "mset (find_activity_logs e search eventType s) =
     mset (filter (log_matches e search eventType) (activityLogs s))"
    by (simp add: find_activity_logs_def newest_first_mset)
next
  assume "jwt_verify e t = Inr u \<and> u_role u = ''admin'' \<and> store_error e 741 = None"
  then show "step e (AdminActivityLog (Some t) search eventType) s =
        (Some (respond 200 (Json (JArr (map activity_log_json
           (find_activity_logs e search eventType s))))), s)"
    by (simp add: admin_activity_log_def authenticateToken_def catch_500_def)
qed

theorem ledger_append_only_newest_first_witness:
  "step (demo_env [] None) (AdminActivityLog (Some ''token admin admin'') None None)
     (demo_state\<lparr>activityLogs := demo_ledger\<rparr>) =
     (Some (respond 200 (Json (JArr (map activity_log_json
        (find_activity_logs (demo_env [] None) None None
           (demo_state\<lparr>activityLogs := demo_ledger\<rparr>)))))),
      demo_state\<lparr>activityLogs := demo_ledger\<rparr>) \<and>
   map log_timestamp (activityLogs (demo_state\<lparr>activityLogs := demo_ledger\<rparr>)) =
     [100, 300, 200] \<and>
   map log_timestamp (find_activity_logs (demo_env [] None) None None
     (demo_state\<lparr>activityLogs := demo_ledger\<rparr>)) = [300, 200, 100]"
proof -
  let ?e = "demo_env [] None"
  let ?s = "demo_state\<lparr>activityLogs := demo_ledger\<rparr>"
  have h: "jwt_verify ?e ''token admin admin'' = Inr \<lparr>u_username = ''admin'', u_role = ''admin''\<rparr> \<and>
      u_role \<lparr>u_username = ''admin'', u_role = ''admin''\<rparr> = ''admin'' \<and> store_error ?e 741 = None"
    by (simp add: demo_defs)
  have f: "map log_timestamp (find_activity_logs ?e None None ?s) = [300, 200, 100]"
    "map log_timestamp (activityLogs ?s) = [100, 300, 200]"
    by (simp_all add: find_activity_logs_def newest_first_def log_matches_def falsy_def
        demo_ledger_def)
  show ?thesis
    using ledger_append_only_newest_first [of ?e _ ?s _ None None "''token admin admin''"
        "\<lparr>u_username = ''admin'', u_role = ''admin''\<rparr>"] h f
    by simp
qed

section \<open>Invoice creation\<close>

lemma invoices_record_invoice:
  assumes "store_error e a = None" "store_error e b = None"
  shows "invoices (snd (record_invoice e a b answer doc ty d s)) = invoices s @ [doc]"
  using assms by (simp add: record_invoice_def ActivityLog_create_def)

lemma invoices_invoice_failed [simp]: "invoices (snd (invoice_failed m s)) = invoices s"
  by (simp add: invoice_failed_def)

text \<open>
  Against C8 as the specification words it: the customer has a default payment method,
  the finalized invoice comes back with status \<^verbatim>\<open>open\<close>, and the local record says
  \<^verbatim>\<open>paid\<close>.
\<close>

theorem invoice_paid_without_confirmation:
  "customers_retrieve (demo_env [] None) ''cus_9'' = Inr (demo_customer ''cus_9'' (Some ''pm_1'')) \<and>
   invoices_finalize (demo_env [] None) ''in_2'' = Inr (demo_finalized ''in_2'') \<and>
   si_status (demo_finalized ''in_2'') = ''open'' \<and>
   map inv_status (invoices (snd (create_invoice (demo_env [] None) (Some ''token vendor v1'')
     ''cus_9'' 50 (Some ''Consulting'') empty_state))) = [''paid'']"
  by (simp add: create_invoice_def authenticateToken_def invoice_charged_def
      invoices_record_invoice Let_def demo_defs local_invoice_def)

text \<open>
  C8, amended. An authenticated invoice creation whose local writes succeed: when the
  customer has a default payment method and the remote invoice is created and finalized
  without an error, the local record is written with status \<^verbatim>\<open>paid\<close>, whatever status
  the finalized invoice reports; when the customer has none and the remote invoice is
  created, the local record is written with status \<^verbatim>\<open>open\<close>; and a local record is
  written only when every remote call of the request has returned.
\<close>

theorem create_invoice_local_record:
  assumes "jwt_verify e t = Inr u"
    and "store_error e 405 = None" "store_error e 408 = None"
    and "store_error e 423 = None" "store_error e 426 = None"
  shows
   "(invoiceItems_create e c (a * 100) d = None \<and> customers_retrieve e c = Inr cust \<and>
     cus_default_payment_method cust \<noteq> None \<and>
     invoices_create e c ''charge_automatically'' = Inr draft \<and>
     invoices_finalize e (si_id draft) = Inr fin \<longrightarrow>
       invoices (snd (create_invoice e (Some t) c a d s)) =
         invoices s @
         [\<lparr>inv_oid = new_oid e 404, inv_id = si_id fin, inv_customerId = c, inv_amount = a,
           inv_description = d, inv_invoiceUrl = si_hosted_invoice_url fin,
           inv_status = ''paid'', inv_createdAt = now e\<rparr>]) \<and>
    (invoiceItems_create e c (a * 100) d = None \<and> customers_retrieve e c = Inr cust \<and>
     cus_default_payment_method cust = None \<and>
     invoices_create e c ''send_invoice'' = Inr created \<longrightarrow>
       invoices (snd (create_invoice e (Some t) c a d s)) =
         invoices s @
         [\<lparr>inv_oid = new_oid e 422, inv_id = si_id created, inv_customerId = c, inv_amount = a,
           inv_description = d, inv_invoiceUrl = si_hosted_invoice_url created,
           inv_status = ''open'', inv_createdAt = now e\<rparr>]) \<and>
    (invoices (snd (create_invoice e (Some t) c a d s)) \<noteq> invoices s \<longrightarrow>
       invoiceItems_create e c (a * 100) d = None \<and>
       (\<exists>cust. customers_retrieve e c = Inr cust \<and>
          (if cus_default_payment_method cust \<noteq> None
           then \<exists>draft fin. invoices_create e c ''charge_automatically'' = Inr draft \<and>
                  invoices_finalize e (si_id draft) = Inr fin
           else \<exists>created. invoices_create e c ''send_invoice'' = Inr created)))"
  using assms
  by (auto simp: create_invoice_def authenticateToken_def invoice_charged_def
      invoice_sent_manually_def invoices_record_invoice local_invoice_def Let_def
      split: option.splits sum.splits)

theorem create_invoice_local_record_witness:
  "map inv_status (invoices (snd (create_invoice (demo_env [] None) (Some ''token vendor v1'')
     ''cus_9'' 50 (Some ''Consulting'') empty_state))) = [''paid''] \<and>
   map inv_status (invoices (snd (create_invoice demo_env_no_card (Some ''token vendor v1'')
     ''cus_9'' 50 (Some ''Consulting'') empty_state))) = [''open'']"
proof -
  let ?e = "demo_env [] None"
  let ?u = "\<lparr>u_username = ''v1'', u_role = ''vendor''\<rparr>"
  have j: "jwt_verify ?e ''token vendor v1'' = Inr ?u"
    "jwt_verify demo_env_no_card ''token vendor v1'' = Inr ?u"
    by (simp_all add: demo_defs demo_env_no_card_def)
  have st: "store_error ?e n = None" "store_error demo_env_no_card n = None" for n
    by (simp_all add: demo_defs demo_env_no_card_def)
  have p: "invoiceItems_create ?e ''cus_9'' (50 * 100) (Some ''Consulting'') = None \<and>
     customers_retrieve ?e ''cus_9'' = Inr (demo_customer ''cus_9'' (Some ''pm_1'')) \<and>
     cus_default_payment_method (demo_customer ''cus_9'' (Some ''pm_1'')) \<noteq> None \<and>
     invoices_create ?e ''cus_9'' ''charge_automatically'' = Inr demo_draft \<and>
     invoices_finalize ?e (si_id demo_draft) = Inr (demo_finalized ''in_2'')"
    by (simp add: demo_defs)
  have q: "invoiceItems_create demo_env_no_card ''cus_9'' (50 * 100) (Some ''Consulting'') = None \<and>
     customers_retrieve demo_env_no_card ''cus_9'' = Inr (demo_customer ''cus_9'' None) \<and>
     cus_default_payment_method (demo_customer ''cus_9'' None) = None \<and>
     invoices_create demo_env_no_card ''cus_9'' ''send_invoice'' = Inr demo_draft"
    by (simp add: demo_defs demo_env_no_card_def)
  have i: "invoices empty_state = []"
    by (simp add: empty_state_def)
  show ?thesis
    using create_invoice_local_record [OF j(1) st(1) st(1) st(1) st(1),
        of "''cus_9''" 50 "Some ''Consulting''" "demo_customer ''cus_9'' (Some ''pm_1'')"
          demo_draft "demo_finalized ''in_2''" empty_state] p
      create_invoice_local_record [OF j(2) st(2) st(2) st(2) st(2),
        of "''cus_9''" 50 "Some ''Consulting''" "demo_customer ''cus_9'' None"
          _ _ empty_state demo_draft] q
    by (simp add: i local_invoice_def)
qed

section \<open>When a ledger write throws\<close>

text \<open>
  The branches for subscription updates and invoice payments wrap their store calls in
  a \<^verbatim>\<open>try\<close> block whose \<^verbatim>\<open>catch\<close> logs the error, so that the route goes on to
  acknowledge. The other ledger writes of the webhook are not guarded so: those of the
  payout branches and of the refunded charge (lines 622, 631, 640) stand outside every
  \<^verbatim>\<open>try\<close> block, and so does the write in the \<^verbatim>\<open>catch\<close> block of the dispute branch
  (line 561). The write of line 550 stands in the \<^verbatim>\<open>try\<close> block that is meant for the
  refund call.
\<close>

text \<open>
  C6 fails on the code. A verified \<^verbatim>\<open>payout.succeeded\<close> event whose ledger write
  (line 622) throws is not answered at all, neither 200 nor 400: the handler rejects
  before it reaches \<^verbatim>\<open>res.json\<close>.
\<close>

theorem payout_unanswered_when_ledger_write_throws:
  "constructEvent (demo_env_store_down ''payout.succeeded'' None 622) (wh_body signed_request)
     (wh_signature signed_request)
     (STRIPE_WEBHOOK_SECRET (demo_env_store_down ''payout.succeeded'' None 622)) =
     Inr (demo_event ''payout.succeeded'') \<and>
   store_error (demo_env_store_down ''payout.succeeded'' None 622) 622 = Some ''connection lost'' \<and>
   fst (stripe_webhook (demo_env_store_down ''payout.succeeded'' None 622) signed_request
     demo_state) = None"
  by (simp add: stripe_webhook_def dispatch_handler_of handler_of_def payout_succeeded_def
      ActivityLog_create_def Let_def demo_env_store_down_def demo_defs)

text \<open>
  C2 fails on the code. A verified dispute whose refund call throws and whose ledger
  write in the \<^verbatim>\<open>catch\<close> block (line 561) throws too: one refund attempt is made, no
  ledger entry is written, and the event is not acknowledged. And a verified dispute
  whose refund call returns, but whose ledger write of line 550 throws: the one entry
  that is written records the refund as failed.
\<close>

theorem dispute_unacknowledged_when_ledger_write_throws:
  "refunds_create (demo_env_store_down ''charge.dispute.created''
     (Some ''Charge ch_1 has already been refunded.'') 561) ''ch_1'' =
     Some ''Charge ch_1 has already been refunded.'' \<and>
   fst (stripe_webhook (demo_env_store_down ''charge.dispute.created''
     (Some ''Charge ch_1 has already been refunded.'') 561) signed_request demo_state) = None \<and>
   refund_attempts (deliver (demo_env_store_down ''charge.dispute.created''
     (Some ''Charge ch_1 has already been refunded.'') 561) signed_request demo_state) =
     [''ch_1''] \<and>
   activityLogs (deliver (demo_env_store_down ''charge.dispute.created''
     (Some ''Charge ch_1 has already been refunded.'') 561) signed_request demo_state) = [] \<and>
   refunds_create (demo_env_store_down ''charge.dispute.created'' None 550) ''ch_1'' = None \<and>
   fst (stripe_webhook (demo_env_store_down ''charge.dispute.created'' None 550)
     signed_request demo_state) = Some (respond 200 received) \<and>
   map log_eventType (activityLogs (deliver (demo_env_store_down ''charge.dispute.created''
     None 550) signed_request demo_state)) = [''fraud_warning_refund_failed'']"
  by (simp add: deliver_def stripe_webhook_def dispatch_handler_of handler_of_def
      charge_dispute_created_def dispute_try_def dispute_catch_def
      ActivityLog_create_def Let_def demo_env_store_down_def demo_defs
      refund_attempts_def refund_charge_def List.map_filter_def
      console_log_def console_error_def stripe_called_def)

end
